theory Spec2Isabelle
  imports Main "HOL-Library.Word" "HOL-Library.Finite_Map"
begin

section \<open>JavaScript strings\<close>

text \<open>
  A JavaScript string is a sequence of 16-bit code units. The constant strings of the
  source are ASCII and are written as HOL literals, converted by \<open>js\<close>.
\<close>

type_synonym jschar = "16 word"
type_synonym jstring = "jschar list"

definition js :: "string \<Rightarrow> jstring" where
  "js s = map (\<lambda>c. of_nat (of_char c)) s"

abbreviation LF :: jschar where "LF \<equiv> 0x0A"
abbreviation CR :: jschar where "CR \<equiv> 0x0D"

text \<open>
  The class \<^verbatim>\<open>\s\<close> of a regular expression, which is also what
  \<^verbatim>\<open>String.prototype.trim\<close> strips: white space and line terminators.
\<close>

definition is_space :: "jschar \<Rightarrow> bool" where
  "is_space c =
     (c = 0x09 \<or> c = 0x0A \<or> c = 0x0B \<or> c = 0x0C \<or> c = 0x0D \<or> c = 0x20 \<or> c = 0xA0
      \<or> c = 0x1680 \<or> (0x2000 \<le> c \<and> c \<le> 0x200A) \<or> c = 0x2028 \<or> c = 0x2029
      \<or> c = 0x202F \<or> c = 0x205F \<or> c = 0x3000 \<or> c = 0xFEFF)"

text \<open>The class \<^verbatim>\<open>\d\<close>: the ASCII digits.\<close>

definition is_digit :: "jschar \<Rightarrow> bool" where
  "is_digit c = (0x30 \<le> c \<and> c \<le> 0x39)"

text \<open>\<^verbatim>\<open>s.trim()\<close>\<close>

definition trim :: "jstring \<Rightarrow> jstring" where
  "trim s = rev (dropWhile is_space (rev (dropWhile is_space s)))"

text \<open>
  \<^verbatim>\<open>s.split(/\r?\n/)\<close>: a separator is a line feed, or a carriage return directly
  followed by a line feed; a carriage return alone is an ordinary character. The result
  always has at least one piece (the empty string splits into one empty piece).
\<close>

fun split_lines :: "jstring \<Rightarrow> jstring list" where
  "split_lines [] = [[]]"
| "split_lines (c # cs) =
     (if c = CR \<and> take 1 cs = [LF] then [] # split_lines (drop 1 cs)
      else if c = LF then [] # split_lines cs
      else (case split_lines cs of [] \<Rightarrow> [[c]] | l # ls \<Rightarrow> (c # l) # ls))"

text \<open>
  \<^verbatim>\<open>line.replace(/^\d+\.\s*/, "")\<close>: the pattern is anchored at the start of the
  string and has no \<^verbatim>\<open>g\<close> flag, so at most one prefix is removed: one or more
  digits, a dot, and all white space that follows. A string that does not start so is
  returned as it is.
\<close>

definition strip_list_prefix :: "jstring \<Rightarrow> jstring" where
  "strip_list_prefix s =
     (case dropWhile is_digit s of
        [] \<Rightarrow> s
      | d # rest \<Rightarrow>
          if takeWhile is_digit s \<noteq> [] \<and> d = 0x2E then dropWhile is_space rest else s)"

text \<open>
  The parser of both model replies (server.js, lines 218 to 222 and 242 to 246):
  \<^verbatim>\<open>raw.split(/\r?\n/).map((line) => line.replace(/^\d+\.\s*/, "").trim())
     .filter(Boolean).slice(0, n)\<close>
\<close>

definition parse_list :: "nat \<Rightarrow> jstring \<Rightarrow> jstring list" where
  "parse_list n raw =
     take n (filter (\<lambda>l. l \<noteq> []) (map (\<lambda>line. trim (strip_list_prefix line)) (split_lines raw)))"

text \<open>
  Decimal digits of a non-negative integer, and \<^verbatim>\<open>String(n)\<close> of an integer of
  magnitude below \<open>10\<^sup>2\<^sup>1\<close>, which JavaScript prints in full (the clock and array
  indices are far below); from there on JavaScript prints a number in exponent form,
  which the model does not follow.
\<close>

function digits :: "int \<Rightarrow> jstring" where
  "digits n =
     (if n < 10 then [0x30 + of_int n] else digits (n div 10) @ [0x30 + of_int (n mod 10)])"
  by pat_completeness auto
termination
  by (relation "measure nat") auto

declare digits.simps [simp del]

definition int_to_string :: "int \<Rightarrow> jstring" where
  "int_to_string n = (if n < 0 then 0x2D # digits (- n) else digits n)"

text \<open>The number that a string of decimal digits denotes.\<close>

definition undigits :: "jstring \<Rightarrow> int" where
  "undigits s = foldl (\<lambda>a c. 10 * a + (uint c - 48)) 0 s"

text \<open>\<^verbatim>\<open>xs.join(sep)\<close> on strings.\<close>

fun join_with :: "jstring \<Rightarrow> jstring list \<Rightarrow> jstring" where
  "join_with sep [] = []"
| "join_with sep [x] = x"
| "join_with sep (x # y # ys) = x @ sep @ join_with sep (y # ys)"

section \<open>JSON values and JavaScript values\<close>

text \<open>
  Every value the handlers touch comes out of \<^verbatim>\<open>JSON.parse\<close> (a request body, the
  drafts file, an upstream reply) or is built from such values, and leaves through
  \<^verbatim>\<open>JSON.stringify\<close> (\<^verbatim>\<open>res.json\<close>, \<^verbatim>\<open>writeDrafts\<close>). A JSON value is
  modelled by \<open>json\<close>; numbers are restricted to integers. A JavaScript value is a
  \<open>json option\<close>, where \<open>None\<close> is \<^verbatim>\<open>undefined\<close>. Objects are finite maps:
  the order of keys is not observable by this program.
\<close>

datatype json =
    JNull
  | JBool bool
  | JNum int
  | JStr jstring
  | JArr "json list"
  | JObj "(jstring, json) fmap"

type_synonym jsval = "json option"

text \<open>Truthiness (\<^verbatim>\<open>!v\<close>, \<^verbatim>\<open>v || w\<close>, \<^verbatim>\<open>if (v)\<close>) and nullishness (\<^verbatim>\<open>v ?? w\<close>, \<^verbatim>\<open>v?.p\<close>).\<close>

fun truthy :: "jsval \<Rightarrow> bool" where
  "truthy None = False"
| "truthy (Some JNull) = False"
| "truthy (Some (JBool b)) = b"
| "truthy (Some (JNum n)) = (n \<noteq> 0)"
| "truthy (Some (JStr s)) = (s \<noteq> [])"
| "truthy (Some (JArr xs)) = True"
| "truthy (Some (JObj m)) = True"

definition nullish :: "jsval \<Rightarrow> bool" where
  "nullish v = (v = None \<or> v = Some JNull)"

text \<open>\<^verbatim>\<open>a || b\<close> and \<^verbatim>\<open>a ?? b\<close>\<close>

definition or_else :: "jsval \<Rightarrow> jsval \<Rightarrow> jsval" where
  "or_else a b = (if truthy a then a else b)"

definition coalesce :: "jsval \<Rightarrow> jsval \<Rightarrow> jsval" where
  "coalesce a b = (if nullish a then b else a)"

text \<open>
  Errors are values. A \<open>TypeError\<close> is raised by the language (a property read on
  \<^verbatim>\<open>undefined\<close> or \<^verbatim>\<open>null\<close>, a call of something that is not a function);
  a \<open>Failure\<close> is raised or rejected by an external service. Both carry the
  \<^verbatim>\<open>message\<close> of the error.
\<close>

datatype js_error = TypeError jstring | Failure jstring

fun message :: "js_error \<Rightarrow> jstring" where
  "message (TypeError m) = m"
| "message (Failure m) = m"

definition and_then :: "js_error + 'a \<Rightarrow> ('a \<Rightarrow> js_error + 'b) \<Rightarrow> js_error + 'b" where
  "and_then r f = (case r of Inl e \<Rightarrow> Inl e | Inr v \<Rightarrow> f v)"

text \<open>
  \<^verbatim>\<open>v.k\<close> for the property names this program reads (\<open>id\<close>, \<open>name\<close>, \<open>caption\<close>,
  \<open>hashtags\<close>, \<open>idea\<close>, \<open>data\<close>, \<open>trends\<close>, \<open>stats\<close>, ...): none of them is a
  property of an array, a string, a number or a boolean, so there the read gives
  \<^verbatim>\<open>undefined\<close>; on \<^verbatim>\<open>undefined\<close> and \<^verbatim>\<open>null\<close> it throws.
\<close>

fun field :: "json \<Rightarrow> jstring \<Rightarrow> jsval" where
  "field (JObj m) k = fmlookup m k"
| "field v k = None"

definition get_prop :: "jsval \<Rightarrow> jstring \<Rightarrow> js_error + jsval" where
  "get_prop v k =
     (case v of
        None \<Rightarrow> Inl (TypeError (js ''Cannot read properties of undefined (reading '' @ [0x27] @ k @ [0x27] @ js '')''))
      | Some JNull \<Rightarrow> Inl (TypeError (js ''Cannot read properties of null (reading '' @ [0x27] @ k @ [0x27] @ js '')''))
      | Some w \<Rightarrow> Inr (field w k))"

text \<open>\<^verbatim>\<open>v?.k\<close>\<close>

definition opt_prop :: "jsval \<Rightarrow> jstring \<Rightarrow> jsval" where
  "opt_prop v k = (case v of None \<Rightarrow> None | Some JNull \<Rightarrow> None | Some w \<Rightarrow> field w k)"

text \<open>
  A function applied to the elements of a list from the left, up to the first one on
  which it throws.
\<close>

fun map_err :: "('a \<Rightarrow> js_error + 'b) \<Rightarrow> 'a list \<Rightarrow> js_error + 'b list" where
  "map_err f [] = Inr []"
| "map_err f (x # xs) =
     (case f x of
        Inl e \<Rightarrow> Inl e
      | Inr y \<Rightarrow> (case map_err f xs of Inl e \<Rightarrow> Inl e | Inr ys \<Rightarrow> Inr (y # ys)))"

text \<open>
  \<^verbatim>\<open>String(v)\<close> and \<^verbatim>\<open>`${v}`\<close>. An array prints as its elements joined by commas,
  \<^verbatim>\<open>null\<close> elements printing as nothing. An object prints as
  \<^verbatim>\<open>[object Object]\<close> by the method it inherits; an object with a key
  \<^verbatim>\<open>toString\<close> of its own (whose value, coming from JSON, is no function) cannot be
  converted, and the conversion throws.
\<close>

primrec to_string :: "json \<Rightarrow> js_error + jstring" where
  "to_string JNull = Inr (js ''null'')"
| "to_string (JBool b) = Inr (if b then js ''true'' else js ''false'')"
| "to_string (JNum n) = Inr (int_to_string n)"
| "to_string (JStr s) = Inr s"
| "to_string (JArr xs) =
     and_then (map_err (\<lambda>r. r) (map to_string xs)) (\<lambda>ss.
       Inr (join_with (js '','') (map (\<lambda>(v, s). if v = JNull then [] else s) (zip xs ss))))"
| "to_string (JObj m) =
     (if fmlookup m (js ''toString'') \<noteq> None
      then Inl (TypeError (js ''Cannot convert object to primitive value''))
      else Inr (js ''[object Object]''))"

definition js_String :: "jsval \<Rightarrow> js_error + jstring" where
  "js_String v = (case v of None \<Rightarrow> Inr (js ''undefined'') | Some w \<Rightarrow> to_string w)"

text \<open>\<^verbatim>\<open>xs.join(sep)\<close> on an array of values.\<close>

definition array_join :: "jstring \<Rightarrow> json list \<Rightarrow> js_error + jstring" where
  "array_join sep xs =
     and_then (map_err to_string xs) (\<lambda>ss.
       Inr (join_with sep (map (\<lambda>(v, s). if v = JNull then [] else s) (zip xs ss))))"

text \<open>
  An object literal \<^verbatim>\<open>{ ...base, k1: v1, k2: v2 }\<close> as \<^verbatim>\<open>JSON.stringify\<close> sees it:
  later properties overwrite earlier ones, and a property whose value is
  \<^verbatim>\<open>undefined\<close> is left out of the output.
\<close>

fun set_props :: "(jstring, json) fmap \<Rightarrow> (jstring \<times> jsval) list \<Rightarrow> (jstring, json) fmap" where
  "set_props m [] = m"
| "set_props m ((k, v) # kvs) =
     set_props (case v of None \<Rightarrow> fmdrop k m | Some x \<Rightarrow> fmupd k x m) kvs"

definition object :: "(jstring \<times> jsval) list \<Rightarrow> json" where
  "object kvs = JObj (set_props fmempty kvs)"

text \<open>The own enumerable properties \<^verbatim>\<open>{ ...v }\<close> copies.\<close>

fun own_props :: "json \<Rightarrow> (jstring, json) fmap" where
  "own_props (JObj m) = m"
| "own_props (JArr xs) = fmap_of_list (zip (map (\<lambda>i. int_to_string (int i)) [0..<length xs]) xs)"
| "own_props (JStr s) =
     fmap_of_list (zip (map (\<lambda>i. int_to_string (int i)) [0..<length s]) (map (\<lambda>c. JStr [c]) s))"
| "own_props v = fmempty"

section \<open>HTTP responses\<close>

record response =
  status :: nat
  body :: json

text \<open>\<^verbatim>\<open>res.status(st).json(b)\<close>; \<^verbatim>\<open>res.json(b)\<close> is the case \<open>st = 200\<close>.\<close>

definition res_json :: "nat \<Rightarrow> json \<Rightarrow> response" where
  "res_json st b = \<lparr>status = st, body = b\<rparr>"

text \<open>
  What a middleware or route handler of Express does with a request: it sends the
  response, or it calls \<^verbatim>\<open>next()\<close> and the next layer of the stack runs. The
  layers run in the order of their registration.
\<close>

datatype 'a layer = Next | Sent 'a

fun dispatch :: "'a layer list \<Rightarrow> 'a option" where
  "dispatch [] = None"
| "dispatch (Next # ls) = dispatch ls"
| "dispatch (Sent r # ls) = Some r"

section \<open>Trends: trends.js\<close>

text \<open>
  The outcome of \<^verbatim>\<open>await fetch(url, ...)\<close> followed by \<^verbatim>\<open>response.json()\<close>: the
  request is rejected, or there is a response with its \<^verbatim>\<open>ok\<close> flag, its
  \<^verbatim>\<open>statusText\<close> and the outcome of parsing its body.
\<close>

datatype fetch_result =
    FetchRejects js_error
  | FetchResponse bool jstring "js_error + json"

text \<open>
  trends.js, lines 24 to 28:
  \<^verbatim>\<open>t => ({ hashtag: t.name, videos: t.stats?.videoCount, sound: t.music?.title })\<close>
\<close>

definition simplify_trend :: "json \<Rightarrow> js_error + json" where
  "simplify_trend t =
     and_then (get_prop (Some t) (js ''name'')) (\<lambda>name.
       Inr (object
         [(js ''hashtag'', name),
          (js ''videos'', opt_prop (field t (js ''stats'')) (js ''videoCount'')),
          (js ''sound'', opt_prop (field t (js ''music'')) (js ''title''))]))"

text \<open>The \<^verbatim>\<open>try\<close> block of the route (trends.js, lines 9 to 30): the body it sends.\<close>

definition trends_try :: "fetch_result \<Rightarrow> js_error + json" where
  "trends_try fr =
     (case fr of
        FetchRejects e \<Rightarrow> Inl e
      | FetchResponse ok statusText parsed \<Rightarrow>
          if \<not> ok then Inl (Failure (js ''API request failed: '' @ statusText))
          else
            and_then parsed (\<lambda>data.
            and_then (get_prop (Some data) (js ''trends'')) (\<lambda>ts.
              case ts of
                Some (JArr xs) \<Rightarrow>
                  and_then (map_err simplify_trend xs) (\<lambda>trends.
                    Inr (object [(js ''trends'', Some (JArr trends))]))
              | None \<Rightarrow> Inl (TypeError (js ''Cannot read properties of undefined (reading 'map')''))
              | Some JNull \<Rightarrow> Inl (TypeError (js ''Cannot read properties of null (reading 'map')''))
              | Some v \<Rightarrow> Inl (TypeError (js ''data.trends.map is not a function'')))))"

text \<open>
  \<^verbatim>\<open>router.get("/trends", ...)\<close> (trends.js, lines 8 to 35). Every path through the
  handler sends a response; none calls \<^verbatim>\<open>next()\<close>.
\<close>

definition router_get_trends :: "fetch_result \<Rightarrow> response" where
  "router_get_trends fr =
     (case trends_try fr of
        Inr b \<Rightarrow> res_json 200 b
      | Inl e \<Rightarrow> res_json 500 (object [(js ''error'', Some (JStr (js ''Failed to fetch trends'')))]))"

section \<open>Trends: the handler of server.js\<close>

text \<open>
  The outcome of the \<^verbatim>\<open>try\<close> block of the scrape (server.js, lines 88 to 111) up to
  the texts of the nodes the page query finds: an exception anywhere, or the
  \<^verbatim>\<open>innerText\<close> of each node.
\<close>

datatype scrape_result = ScrapeThrows js_error | ScrapeNodes "jstring list"

text \<open>
  server.js, lines 106 to 109:
  \<^verbatim>\<open>nodes.map((n) => n.innerText && n.innerText.trim()).filter(Boolean).slice(0, 40)\<close>
\<close>

definition scrape_items :: "jstring list \<Rightarrow> jstring list" where
  "scrape_items texts =
     take 40 (filter (\<lambda>s. s \<noteq> []) (map (\<lambda>t. if t = [] then [] else trim t) texts))"

definition fallback :: "json list" where
  "fallback =
     [JStr (js ''#fyp''), JStr (js ''#viral''), JStr (js ''#trend''), JStr (js ''#challenge''),
      JStr (js ''#lifehack''), JStr (js ''#dance''), JStr (js ''#funny''), JStr (js ''#asmr''),
      JStr (js ''#tutorial'')]"

definition simulated :: response where
  "simulated =
     res_json 200 (object
       [(js ''ok'', Some (JBool True)),
        (js ''provider'', Some (JStr (js ''simulated''))),
        (js ''data'', Some (JArr fallback))])"

text \<open>
  \<^verbatim>\<open>app.get("/api/trends", ...)\<close> (server.js, lines 84 to 133). The first argument is
  \<^verbatim>\<open>process.env.USE_PUPPETEER\<close>, \<open>None\<close> when the variable is not set.
\<close>

definition get_api_trends :: "jstring option \<Rightarrow> scrape_result \<Rightarrow> response" where
  "get_api_trends USE_PUPPETEER scrape =
     (let usePuppeteer = (USE_PUPPETEER = Some (js ''true'')) in
      if usePuppeteer then
        (case scrape of
           ScrapeThrows e \<Rightarrow> simulated
         | ScrapeNodes texts \<Rightarrow>
             (let items = scrape_items texts in
              if items \<noteq> [] then
                res_json 200 (object
                  [(js ''ok'', Some (JBool True)),
                   (js ''provider'', Some (JStr (js ''puppeteer''))),
                   (js ''data'', Some (JArr (map JStr items)))])
              else simulated))
      else simulated)"

section \<open>The route GET /api/trends of the application\<close>

text \<open>
  What a request \<^verbatim>\<open>GET /api/trends\<close> (without a body) meets, in the order in which
  server.js registers its layers.
\<close>

record trends_world =
  USE_PUPPETEER :: "jstring option"
  upstream :: fetch_result
  scrape :: scrape_result
  rate_limited :: bool

definition too_many_requests :: response where
  "too_many_requests =
     \<lparr>status = 429, body = JStr (js ''Too many requests, please try again later.'')\<rparr>"

definition app_get_api_trends :: "trends_world \<Rightarrow> response option" where
  "app_get_api_trends w =
     dispatch
       [Next, \<comment> \<open>line 42: the middleware cors()\<close>
        Next, \<comment> \<open>line 43: the middleware express.json(), with nothing to parse\<close>
        Sent (router_get_trends (upstream w)),
          \<comment> \<open>line 44: trendsRouter mounted at /api, whose route /trends matches\<close>
        Next, \<comment> \<open>line 45: the middleware express.urlencoded()\<close>
        (if rate_limited w then Sent too_many_requests else Next),
          \<comment> \<open>lines 46 to 51: the middleware rateLimit()\<close>
        Next, \<comment> \<open>line 54: the middleware express.static(publicDir)\<close>
        Sent (get_api_trends (USE_PUPPETEER w) (scrape w))
          \<comment> \<open>line 84: the route GET /api/trends of server.js\<close>]"

section \<open>Captions: POST /api/caption\<close>

text \<open>
  The uploads directory is the set of paths of the files in it. The services the
  handler calls are its world: the environment variable, the transcoder, the
  transcription and chat endpoints, the loopback request for trends, and whether the
  removal of a file fails.
\<close>

type_synonym path = jstring
type_synonym files = "path set"

text \<open>
  The transcoder ends, or fails with an error; in the second case the flag says whether
  it has left an output file behind.
\<close>

datatype ffmpeg_result = FfmpegEnd | FfmpegError js_error bool

text \<open>
  \<open>transcribe\<close> is the outcome of \<^verbatim>\<open>openai.audio.transcriptions.create\<close>;
  \<open>fetch_trends\<close> that of the dynamic import, the request to
  \<^verbatim>\<open>http://localhost:PORT/api/trends\<close> and \<^verbatim>\<open>r.json()\<close>; \<open>chat\<close> that of
  \<^verbatim>\<open>openai.chat.completions.create\<close> for a system and a user message, reduced to
  \<^verbatim>\<open>completion.choices?.[0]?.message?.content\<close>, \<open>None\<close> when that chain gives
  no string.
\<close>

record caption_world =
  OPENAI_API_KEY :: "jstring option"
  ffmpeg :: ffmpeg_result
  transcribe :: "js_error + jsval"
  unlink_fails :: "path \<Rightarrow> bool"
  fetch_trends :: "js_error + json"
  chat :: "jstring \<Rightarrow> jstring \<Rightarrow> js_error + jstring option"

text \<open>
  \<^verbatim>\<open>try { fssync.unlinkSync(p); } catch {}\<close>: the file is removed if it is there and
  the removal does not fail; an error is swallowed.
\<close>

definition unlink_quietly :: "caption_world \<Rightarrow> path \<Rightarrow> files \<Rightarrow> files" where
  "unlink_quietly w p fs = (if p \<in> fs \<and> \<not> unlink_fails w p then fs - {p} else fs)"

text \<open>
  What a stretch of the handler's \<^verbatim>\<open>try\<close> block does: it throws, it returns a
  response, or it goes on with a value.
\<close>

datatype 'a step = Throw js_error | Return response | Continue 'a

definition bad_request :: response where
  "bad_request =
     res_json 400 (object
       [(js ''ok'', Some (JBool False)),
        (js ''error'', Some (JStr (js ''Provide video file (field 'video') or JSON { idea }'')))])"

definition key_not_set :: response where
  "key_not_set =
     res_json 500 (object
       [(js ''ok'', Some (JBool False)),
        (js ''error'', Some (JStr (js ''OPENAI_API_KEY not set on server'')))])"

definition generation_failed :: "js_error \<Rightarrow> response" where
  "generation_failed err =
     res_json 500 (object
       [(js ''ok'', Some (JBool False)),
        (js ''error'', Some (JStr (js ''Caption generation failed''))),
        (js ''detail'', Some (JStr (message err)))])"

text \<open>
  Step 1 (server.js, lines 153 to 179). \<open>req_file\<close> is \<^verbatim>\<open>req.file\<close>, given by
  its \<^verbatim>\<open>path\<close>, and \<open>req_body\<close> is \<^verbatim>\<open>req.body\<close>. The step returns the uploads directory
  as it leaves it, and the value of \<^verbatim>\<open>contextText\<close>: the text of the transcription as
  it came, or \<^verbatim>\<open>String(req.body.idea || "")\<close>.
\<close>

definition context_step ::
  "caption_world \<Rightarrow> files \<Rightarrow> path option \<Rightarrow> jsval \<Rightarrow> files \<times> jsval step" where
  "context_step w fs req_file req_body =
     (case req_file of
        Some videoPath \<Rightarrow>
          (let audioPath = videoPath @ js ''.mp3'' in
           case ffmpeg w of
             FfmpegError e partial \<Rightarrow> (if partial then insert audioPath fs else fs, Throw e)
           | FfmpegEnd \<Rightarrow>
               (let fs1 = insert audioPath fs in
                case transcribe w of
                  Inl e \<Rightarrow> (fs1, Throw e)
                | Inr transcription \<Rightarrow>
                    (let contextText = or_else (opt_prop transcription (js ''text'')) (Some (JStr []));
                         fs2 = unlink_quietly w videoPath fs1;
                         fs3 = unlink_quietly w audioPath fs2
                     in (fs3, Continue contextText))))
      | None \<Rightarrow>
          (case get_prop req_body (js ''idea'') of
             Inl e \<Rightarrow> (fs, Throw e)
           | Inr idea \<Rightarrow>
               if truthy idea then
                 (case js_String (or_else idea (Some (JStr []))) of
                    Inl e \<Rightarrow> (fs, Throw e)
                  | Inr contextText \<Rightarrow> (fs, Continue (Some (JStr contextText))))
               else (fs, Return bad_request)))"

text \<open>Step 2 (server.js, lines 182 to 191).\<close>

definition fetched_trends :: "caption_world \<Rightarrow> json" where
  "fetched_trends w =
     (case and_then (fetch_trends w) (\<lambda>j. get_prop (Some j) (js ''data'')) of
        Inl e \<Rightarrow> JArr [JStr (js ''#fyp''), JStr (js ''#viral''), JStr (js ''#trend''), JStr (js ''#funny'')]
      | Inr d \<Rightarrow> (case or_else d (Some (JArr [])) of Some t \<Rightarrow> t | None \<Rightarrow> JArr []))"

text \<open>\<^verbatim>\<open>trends.slice(0, 5).join(" ")\<close>, where \<open>trends\<close> is truthy.\<close>

definition trends_text :: "json \<Rightarrow> js_error + jstring" where
  "trends_text trends =
     (case trends of
        JArr xs \<Rightarrow> array_join (js '' '') (take 5 xs)
      | JStr s \<Rightarrow> Inl (TypeError (js ''trends.slice(...).join is not a function''))
      | v \<Rightarrow> Inl (TypeError (js ''trends.slice is not a function'')))"

text \<open>Steps 3 and 4: the prompts (server.js, lines 194 to 206 and 225 to 230).\<close>

definition captionPrompt :: "jstring \<Rightarrow> jstring \<Rightarrow> jstring" where
  "captionPrompt contextText trendsText =
     join_with [LF]
       [js ''Video/transcript: '' @ contextText,
        js ''Trending hashtags: '' @ trendsText,
        [],
        js ''Generate 4 different TikTok caption variants:'',
        js ''- <= 120 characters'',
        js ''- Natural, human, viral tone'',
        js ''- Use emojis if natural'',
        js ''- Each caption should target a different niche/FYP:'',
        js ''  1. Educational/tutorial'',
        js ''  2. Funny/entertaining'',
        js ''  3. Lifestyle/relatable'',
        js ''  4. Challenge/trend'',
        js ''Return as a newline list.'']"

definition soundPrompt :: "jstring \<Rightarrow> jstring \<Rightarrow> jstring" where
  \<open>soundPrompt contextText trendsText =
     join_with [LF]
       [js ''Transcript/context: '' @ contextText,
        js ''Trending hashtags: '' @ trendsText,
        [],
        js ''Suggest 3 trending TikTok sound types that would boost discoverability.'',
        js ''Examples: "lofi chill beat", "funny meme sound", "dramatic transition".'',
        js ''Keep them short and catchy.'']\<close>

text \<open>\<^verbatim>\<open>content?.trim?.() || ""\<close>\<close>

definition raw_text :: "jstring option \<Rightarrow> jstring" where
  "raw_text content = (case content of None \<Rightarrow> [] | Some s \<Rightarrow> trim s)"

text \<open>
  Steps 2 to 5 (server.js, lines 182 to 248), from \<^verbatim>\<open>contextText\<close> on: the response
  the handler returns, or the error it throws. \<open>prompt_context\<close> is \<^verbatim>\<open>${contextText}\<close>, the
  text that both prompts embed.
\<close>

definition generate :: "caption_world \<Rightarrow> jsval \<Rightarrow> js_error + response" where
  "generate w contextText =
     (let trends = fetched_trends w in
      and_then (trends_text trends) (\<lambda>trendsText.
      and_then (js_String contextText) (\<lambda>prompt_context.
      and_then (chat w (js ''You are a TikTok strategist who crafts viral captions.'')
                  (captionPrompt prompt_context trendsText)) (\<lambda>completion.
        let captions = parse_list 4 (raw_text completion) in
      and_then (chat w (js ''You recommend TikTok trending sounds.'')
                  (soundPrompt prompt_context trendsText)) (\<lambda>soundCompletion.
        let sounds = parse_list 3 (raw_text soundCompletion) in
        Inr (res_json 200 (object
          [(js ''ok'', Some (JBool True)),
           (js ''captions'', Some (JArr (map JStr captions))),
           (js ''sounds'', Some (JArr (map JStr sounds))),
           (js ''trends'', Some trends)])))))))"

text \<open>
  \<^verbatim>\<open>app.post("/api/caption", upload.single("video"), ...)\<close> (server.js, lines 144 to
  253). The upload middleware has stored the file, if the request has one, before the
  handler runs. The handler returns its response and the uploads directory as it leaves
  it.
\<close>

definition post_api_caption ::
  "caption_world \<Rightarrow> files \<Rightarrow> path option \<Rightarrow> jsval \<Rightarrow> response \<times> files" where
  "post_api_caption w fs req_file req_body =
     (if OPENAI_API_KEY w = None \<or> OPENAI_API_KEY w = Some [] then (key_not_set, fs)
      else
        (case context_step w fs req_file req_body of
           (fs', Return r) \<Rightarrow> (r, fs')
         | (fs', Throw e) \<Rightarrow> (generation_failed e, fs')
         | (fs', Continue contextText) \<Rightarrow>
             (case generate w contextText of
                Inl e \<Rightarrow> (generation_failed e, fs')
              | Inr r \<Rightarrow> (r, fs'))))"

section \<open>Drafts: the file-backed store\<close>

text \<open>
  The disk, as far as the drafts are concerned: what \<^verbatim>\<open>JSON.parse\<close> makes of the
  contents of the drafts file (\<open>None\<close> when the file cannot be read or parsed; an
  empty file reads as the empty array), and the log of the arrays handed to
  \<^verbatim>\<open>writeDrafts\<close>, the latest first.
\<close>

record disk =
  drafts_file :: "json option"
  written :: "json list"

text \<open>
  The outcome of \<^verbatim>\<open>fs.writeFile\<close>: it succeeds, or it fails with an error and
  leaves some contents behind.
\<close>

datatype write_result = WriteOk | WriteFails js_error "json option"

text \<open>\<^verbatim>\<open>readDrafts\<close> (server.js, lines 263 to 271)\<close>

definition readDrafts :: "disk \<Rightarrow> json" where
  "readDrafts d = (case drafts_file d of None \<Rightarrow> JArr [] | Some v \<Rightarrow> v)"

text \<open>\<^verbatim>\<open>writeDrafts\<close> (server.js, lines 272 to 274)\<close>

definition writeDrafts :: "json \<Rightarrow> write_result \<Rightarrow> disk \<Rightarrow> (js_error + unit) \<times> disk" where
  "writeDrafts arr wr d =
     (case wr of
        WriteOk \<Rightarrow> (Inr (), d\<lparr>drafts_file := Some arr, written := arr # written d\<rparr>)
      | WriteFails e left \<Rightarrow> (Inl e, d\<lparr>drafts_file := left, written := arr # written d\<rparr>))"

text \<open>\<^verbatim>\<open>const { name, caption, hashtags } = req.body;\<close>\<close>

definition destructure :: "jsval \<Rightarrow> js_error + jsval \<times> jsval \<times> jsval" where
  "destructure req_body =
     (case req_body of
        None \<Rightarrow>
          Inl (TypeError (js ''Cannot destructure property 'name' of 'req.body' as it is undefined.''))
      | Some JNull \<Rightarrow>
          Inl (TypeError (js ''Cannot destructure property 'name' of 'req.body' as it is null.''))
      | Some b \<Rightarrow> Inr (field b (js ''name''), field b (js ''caption''), field b (js ''hashtags'')))"

text \<open>
  \<^verbatim>\<open>xs.findIndex(p)\<close>: the index of the first element on which the callback gives
  true, \<open>None\<close> for \<^verbatim>\<open>-1\<close>; an exception of the callback ends the search.
\<close>

fun findIndex :: "('a \<Rightarrow> js_error + bool) \<Rightarrow> 'a list \<Rightarrow> js_error + nat option" where
  "findIndex p [] = Inr None"
| "findIndex p (x # xs) =
     (case p x of
        Inl e \<Rightarrow> Inl e
      | Inr True \<Rightarrow> Inr (Some 0)
      | Inr False \<Rightarrow>
          (case findIndex p xs of
             Inl e \<Rightarrow> Inl e
           | Inr None \<Rightarrow> Inr None
           | Inr (Some i) \<Rightarrow> Inr (Some (Suc i))))"

text \<open>The callback \<^verbatim>\<open>(d) => d.id === id\<close>, where \<open>id'\<close> stands for \<^verbatim>\<open>id\<close>, a string.\<close>

definition has_id :: "jstring \<Rightarrow> json \<Rightarrow> js_error + bool" where
  "has_id id' d = and_then (get_prop (Some d) (js ''id'')) (\<lambda>v. Inr (v = Some (JStr id')))"

definition failed :: "string \<Rightarrow> response" where
  "failed msg =
     res_json 500 (object [(js ''ok'', Some (JBool False)), (js ''error'', Some (JStr (js msg)))])"

definition not_found :: response where
  "not_found =
     res_json 404 (object
       [(js ''ok'', Some (JBool False)), (js ''error'', Some (JStr (js ''Draft not found'')))])"

definition missing_name :: response where
  "missing_name =
     res_json 400 (object
       [(js ''ok'', Some (JBool False)), (js ''error'', Some (JStr (js ''Missing name'')))])"

text \<open>\<^verbatim>\<open>app.get("/api/drafts", ...)\<close> (server.js, lines 276 to 284)\<close>

definition get_api_drafts :: "disk \<Rightarrow> response \<times> disk" where
  "get_api_drafts d =
     (res_json 200 (object [(js ''ok'', Some (JBool True)), (js ''drafts'', Some (readDrafts d))]), d)"

text \<open>
  The record line 292 builds. \<open>now\<close> is the value of \<^verbatim>\<open>Date.now()\<close>, the
  milliseconds since the epoch, and \<open>created\<close> that of
  \<^verbatim>\<open>new Date().toISOString()\<close>.
\<close>

definition draft_id :: "int \<Rightarrow> jstring" where
  "draft_id now = js ''draft_'' @ int_to_string now"

definition new_draft :: "int \<Rightarrow> jstring \<Rightarrow> jsval \<Rightarrow> jsval \<Rightarrow> jsval \<Rightarrow> json" where
  "new_draft now created name caption hashtags =
     object
       [(js ''id'', Some (JStr (draft_id now))),
        (js ''name'', name),
        (js ''caption'', or_else caption (Some (JStr []))),
        (js ''hashtags'', or_else hashtags (Some (JStr []))),
        (js ''created'', Some (JStr created))]"

text \<open>\<^verbatim>\<open>app.post("/api/drafts", ...)\<close> (server.js, lines 286 to 300)\<close>

definition post_api_drafts ::
  "jsval \<Rightarrow> int \<Rightarrow> jstring \<Rightarrow> write_result \<Rightarrow> disk \<Rightarrow> response \<times> disk" where
  "post_api_drafts req_body now created wr d =
     (case destructure req_body of
        Inl e \<Rightarrow> (failed ''Failed to save draft'', d)
      | Inr (name, caption, hashtags) \<Rightarrow>
          if \<not> truthy name then (missing_name, d)
          else
            (let item = new_draft now created name caption hashtags in
             case readDrafts d of
               JArr drafts \<Rightarrow>
                 (case writeDrafts (JArr (item # drafts)) wr d of
                    (Inr u, d') \<Rightarrow>
                      (res_json 200 (object [(js ''ok'', Some (JBool True)), (js ''draft'', Some item)]), d')
                  | (Inl e, d') \<Rightarrow> (failed ''Failed to save draft'', d'))
             | v \<Rightarrow> (failed ''Failed to save draft'', d)))"

text \<open>
  The record line 309 builds:
  \<^verbatim>\<open>{ ...drafts[idx], name: name ?? drafts[idx].name, caption: caption ?? drafts[idx].caption,
     hashtags: hashtags ?? drafts[idx].hashtags, updated: new Date().toISOString() }\<close>
  The right operand of \<^verbatim>\<open>??\<close>, given to \<open>coalesce_with\<close> with its outcome, counts
  only when the left operand is \<^verbatim>\<open>null\<close> or \<^verbatim>\<open>undefined\<close>.
\<close>

definition coalesce_with :: "jsval \<Rightarrow> js_error + jsval \<Rightarrow> js_error + jsval" where
  "coalesce_with a b = (if nullish a then b else Inr a)"

definition merge_draft :: "json \<Rightarrow> jsval \<Rightarrow> jsval \<Rightarrow> jsval \<Rightarrow> jstring \<Rightarrow> js_error + json" where
  "merge_draft cur name caption hashtags updated =
     and_then (coalesce_with name (get_prop (Some cur) (js ''name''))) (\<lambda>new_name.
     and_then (coalesce_with caption (get_prop (Some cur) (js ''caption''))) (\<lambda>new_caption.
     and_then (coalesce_with hashtags (get_prop (Some cur) (js ''hashtags''))) (\<lambda>new_hashtags.
       Inr (JObj (set_props (own_props cur)
         [(js ''name'', new_name),
          (js ''caption'', new_caption),
          (js ''hashtags'', new_hashtags),
          (js ''updated'', Some (JStr updated))])))))"

text \<open>\<^verbatim>\<open>app.put("/api/drafts/:id", ...)\<close> (server.js, lines 302 to 316)\<close>

definition put_api_drafts ::
  "jstring \<Rightarrow> jsval \<Rightarrow> jstring \<Rightarrow> write_result \<Rightarrow> disk \<Rightarrow> response \<times> disk" where
  "put_api_drafts id' req_body updated wr d =
     (case destructure req_body of
        Inl e \<Rightarrow> (failed ''Failed to update draft'', d)
      | Inr (name, caption, hashtags) \<Rightarrow>
          (case readDrafts d of
             JArr drafts \<Rightarrow>
               (case findIndex (has_id id') drafts of
                  Inl e \<Rightarrow> (failed ''Failed to update draft'', d)
                | Inr None \<Rightarrow> (not_found, d)
                | Inr (Some idx) \<Rightarrow>
                    (case merge_draft (drafts ! idx) name caption hashtags updated of
                       Inl e \<Rightarrow> (failed ''Failed to update draft'', d)
                     | Inr item \<Rightarrow>
                         (case writeDrafts (JArr (drafts[idx := item])) wr d of
                            (Inr u, d') \<Rightarrow>
                              (res_json 200
                                 (object [(js ''ok'', Some (JBool True)), (js ''draft'', Some item)]), d')
                          | (Inl e, d') \<Rightarrow> (failed ''Failed to update draft'', d'))))
           | v \<Rightarrow> (failed ''Failed to update draft'', d)))"

text \<open>
  \<^verbatim>\<open>app.delete("/api/drafts/:id", ...)\<close> (server.js, lines 318 to 331);
  \<^verbatim>\<open>drafts.splice(idx, 1)[0]\<close> takes the element at \<open>idx\<close> out of the array.
\<close>

definition delete_api_drafts :: "jstring \<Rightarrow> write_result \<Rightarrow> disk \<Rightarrow> response \<times> disk" where
  "delete_api_drafts id' wr d =
     (case readDrafts d of
        JArr drafts \<Rightarrow>
          (case findIndex (has_id id') drafts of
             Inl e \<Rightarrow> (failed ''Failed to delete draft'', d)
           | Inr None \<Rightarrow> (not_found, d)
           | Inr (Some idx) \<Rightarrow>
               (let removed = drafts ! idx in
                case writeDrafts (JArr (take idx drafts @ drop (Suc idx) drafts)) wr d of
                  (Inr u, d') \<Rightarrow>
                    (res_json 200
                       (object [(js ''ok'', Some (JBool True)), (js ''deleted'', Some removed)]), d')
                | (Inl e, d') \<Rightarrow> (failed ''Failed to delete draft'', d')))
      | v \<Rightarrow> (failed ''Failed to delete draft'', d))"

section \<open>Concrete requests and worlds\<close>

text \<open>
  A world in which every service answers: the key is configured, the transcoder ends,
  the transcription has a text, no removal fails, the loopback request for trends is
  refused, and the model answers every prompt with a numbered list of five lines, one
  of them preceded by an empty line.
\<close>

definition world_ok :: caption_world where
  "world_ok =
     \<lparr>OPENAI_API_KEY = Some (js ''sk-test''),
      ffmpeg = FfmpegEnd,
      transcribe = Inr (Some (JObj (fmap_of_list [(js ''text'', JStr (js ''hello''))]))),
      unlink_fails = (\<lambda>p. False),
      fetch_trends = Inl (Failure (js ''connect ECONNREFUSED'')),
      chat = (\<lambda>system user.
        Inr (Some [0x31, 0x2E, 0x20, 0x41, LF, 0x32, 0x2E, 0x20, 0x42, CR, LF, LF,
                   0x33, 0x2E, 0x20, 0x43, LF, 0x34, 0x2E, 0x20, 0x44, LF, 0x35, 0x2E, 0x20, 0x45]))\<rparr>"

text \<open>The body \<^verbatim>\<open>{ "idea": "cats" }\<close> and the path of an upload.\<close>

definition idea_body :: jsval where
  "idea_body = Some (JObj (fmap_of_list [(js ''idea'', JStr (js ''cats''))]))"

definition video :: path where
  "video = js ''uploads/1-a-clip.mp4''"

text \<open>
  A world for \<^verbatim>\<open>GET /api/trends\<close>: scraping is not enabled, and the request to the
  third-party trends service is rejected.
\<close>

definition world_upstream_down :: trends_world where
  "world_upstream_down =
     \<lparr>USE_PUPPETEER = None,
      upstream = FetchRejects (Failure (js ''getaddrinfo ENOTFOUND'')),
      scrape = ScrapeNodes [],
      rate_limited = False\<rparr>"

text \<open>
  The disk after the first start (\<^verbatim>\<open>ensureDataDir\<close> writes \<^verbatim>\<open>[]\<close>), the body
  \<^verbatim>\<open>{ "name": "a" }\<close>, and a disk with one draft.
\<close>

definition disk0 :: disk where
  "disk0 = \<lparr>drafts_file = Some (JArr []), written = []\<rparr>"

definition name_body :: jsval where
  "name_body = Some (JObj (fmap_of_list [(js ''name'', JStr (js ''a''))]))"

definition draft1 :: json where
  "draft1 =
     JObj (fmap_of_list
       [(js ''id'', JStr (js ''draft_1'')),
        (js ''name'', JStr (js ''n'')),
        (js ''caption'', JStr (js ''c'')),
        (js ''hashtags'', JStr (js ''#h'')),
        (js ''created'', JStr (js ''t0''))])"

definition disk1 :: disk where
  "disk1 = \<lparr>drafts_file = Some (JArr [draft1]), written = []\<rparr>"


definition null_name_patch :: jsval where
  "null_name_patch =
     Some (JObj (fmap_of_list [(js ''name'', JNull), (js ''caption'', JStr (js ''new''))]))"

text \<open>The ids of the drafts that \<^verbatim>\<open>GET /api/drafts\<close> lists.\<close>

definition listed_ids :: "disk \<Rightarrow> jsval list" where
  "listed_ids d =
     (case field (body (fst (get_api_drafts d))) (js ''drafts'') of
        Some (JArr xs) \<Rightarrow> map (\<lambda>x. field x (js ''id'')) xs
      | v \<Rightarrow> [])"

lemma js_Nil [simp]: "js [] = []"
  by (simp add: js_def)

section \<open>Properties of objects\<close>

lemma key_distinct [simp]:
  "js ''name'' \<noteq> js ''caption''" "js ''name'' \<noteq> js ''hashtags''" "js ''name'' \<noteq> js ''updated''"
  "js ''caption'' \<noteq> js ''name''" "js ''caption'' \<noteq> js ''hashtags''" "js ''caption'' \<noteq> js ''updated''"
  "js ''hashtags'' \<noteq> js ''name''" "js ''hashtags'' \<noteq> js ''caption''" "js ''hashtags'' \<noteq> js ''updated''"
  "js ''updated'' \<noteq> js ''name''" "js ''updated'' \<noteq> js ''caption''" "js ''updated'' \<noteq> js ''hashtags''"
  by (simp_all add: js_def)

lemma fmlookup_set_props:
  "fmlookup (set_props m kvs) k = (case map_of (rev kvs) k of Some v \<Rightarrow> v | None \<Rightarrow> fmlookup m k)"
proof (induction kvs arbitrary: m)
  case Nil
  then show ?case by simp
next
  case (Cons kv kvs)
  obtain k' v where kv: "kv = (k', v)" by (cases kv)
  show ?case
    by (cases v) (auto simp: kv Cons map_add_def split: option.splits)
qed

lemma field_object:
  "field (object kvs) k = (case map_of (rev kvs) k of Some v \<Rightarrow> v | None \<Rightarrow> None)"
  by (simp add: object_def fmlookup_set_props split: option.splits)

section \<open>Properties of the reply parser\<close>

lemma split_lines_not_Nil: "split_lines s \<noteq> []"
  by (induction s rule: split_lines.induct) (auto split: list.splits)

lemma split_lines_no_LF: "l \<in> set (split_lines s) \<Longrightarrow> LF \<notin> set l"
proof (induction s arbitrary: l rule: split_lines.induct)
  case 1
  then show ?case by simp
next
  case (2 c cs)
  show ?case
  proof (cases "c = CR \<and> take 1 cs = [LF]")
    case True
    with 2 show ?thesis by auto
  next
    case False
    note notcrlf = this
    show ?thesis
    proof (cases "c = LF")
      case True
      with 2 notcrlf show ?thesis by auto
    next
      case False
      with 2 notcrlf show ?thesis
        by (cases "split_lines cs") (auto split: if_splits)
    qed
  qed
qed

lemma set_strip_list_prefix: "set (strip_list_prefix s) \<subseteq> set s"
  unfolding strip_list_prefix_def
  by (auto split: list.splits dest!: set_dropWhileD) (metis list.set_intros(2) set_dropWhileD)

lemma set_trim: "set (trim s) \<subseteq> set s"
  unfolding trim_def by (auto dest!: set_dropWhileD)

lemma rstrip_Cons:
  "rev (dropWhile P (rev (x # xs))) =
     (if P x \<and> (\<forall>y\<in>set xs. P y) then [] else x # rev (dropWhile P (rev xs)))"
  by (auto simp: dropWhile_append)

lemma hd_rstrip:
  "rev (dropWhile P (rev xs)) \<noteq> [] \<Longrightarrow> hd (rev (dropWhile P (rev xs))) = hd xs"
  by (cases xs) (auto simp: rstrip_Cons simp del: rev.simps split: if_splits)

lemma trim_ends:
  assumes "trim s \<noteq> []"
  shows "\<not> is_space (hd (trim s)) \<and> \<not> is_space (last (trim s))"
proof -
  let ?t = "dropWhile is_space s"
  have ne: "rev (dropWhile is_space (rev ?t)) \<noteq> []" using assms by (simp add: trim_def)
  have tne: "?t \<noteq> []"
  proof
    assume "?t = []"
    with ne show False by simp
  qed
  have "hd (trim s) = hd ?t" using hd_rstrip[OF ne] by (simp add: trim_def)
  moreover have "\<not> is_space (hd ?t)" using tne by (rule hd_dropWhile)
  moreover have "last (trim s) = hd (dropWhile is_space (rev ?t))"
    using ne by (simp add: trim_def last_rev)
  moreover have "\<not> is_space (hd (dropWhile is_space (rev ?t)))"
  proof (rule hd_dropWhile)
    show "dropWhile is_space (rev ?t) \<noteq> []"
    proof
      assume "dropWhile is_space (rev ?t) = []"
      with ne show False by simp
    qed
  qed
  ultimately show ?thesis by simp
qed

lemma parse_list_entry:
  assumes "c \<in> set (parse_list n raw)"
  shows "c \<noteq> [] \<and> \<not> is_space (hd c) \<and> \<not> is_space (last c) \<and> LF \<notin> set c
         \<and> (\<exists>l\<in>set (split_lines raw). c = trim (strip_list_prefix l))"
proof -
  from assms obtain l where l: "l \<in> set (split_lines raw)" and c: "c = trim (strip_list_prefix l)"
    and ne: "c \<noteq> []"
    unfolding parse_list_def by (auto dest!: in_set_takeD)
  have "LF \<notin> set l" using l by (rule split_lines_no_LF)
  then have "LF \<notin> set c" using set_trim set_strip_list_prefix c by blast
  moreover have "\<not> is_space (hd c) \<and> \<not> is_space (last c)" using trim_ends ne c by blast
  ultimately show ?thesis using l c ne by blast
qed

lemma length_parse_list: "length (parse_list n raw) \<le> n"
  by (simp add: parse_list_def)

lemma split_lines_no_break: "LF \<notin> set a \<Longrightarrow> split_lines a = [a]"
proof (induction a)
  case Nil
  then show ?case by simp
next
  case (Cons c cs)
  then have "c \<noteq> LF" and "LF \<notin> set cs" by auto
  moreover from \<open>LF \<notin> set cs\<close> have "take 1 cs \<noteq> [LF]" by (cases cs) auto
  ultimately show ?case using Cons.IH by simp
qed

lemma split_lines_CRLF:
  "LF \<notin> set a \<Longrightarrow> split_lines (a @ CR # LF # b) = a # split_lines b"
proof (induction a)
  case Nil
  then show ?case by simp
next
  case (Cons c cs)
  then have c: "c \<noteq> LF" and cs: "LF \<notin> set cs" by auto
  from cs have "take 1 (cs @ CR # LF # b) \<noteq> [LF]" by (cases cs) auto
  with c cs Cons.IH show ?case by simp
qed

lemma split_lines_LF:
  "LF \<notin> set a \<Longrightarrow> a = [] \<or> last a \<noteq> CR \<Longrightarrow> split_lines (a @ LF # b) = a # split_lines b"
proof (induction a)
  case Nil
  then show ?case by simp
next
  case (Cons c cs)
  then have c: "c \<noteq> LF" and cs: "LF \<notin> set cs" by auto
  show ?case
  proof (cases cs)
    case Nil
    with Cons.prems have "c \<noteq> CR" by simp
    with Nil c show ?thesis by simp
  next
    case (Cons d ds)
    with cs have "take 1 (cs @ LF # b) \<noteq> [LF]" by auto
    moreover from Cons Cons.prems have "cs = [] \<or> last cs \<noteq> CR" by simp
    ultimately show ?thesis using c cs Cons.IH by simp
  qed
qed

lemma not_digit_dot [simp]: "\<not> is_digit 0x2E"
  by (simp add: is_digit_def)

lemma strip_list_prefix_numbered:
  assumes "ds \<noteq> []" and "\<forall>c\<in>set ds. is_digit c"
  shows "strip_list_prefix (ds @ 0x2E # rest) = dropWhile is_space rest"
proof -
  have "takeWhile is_digit (ds @ 0x2E # rest) = ds"
    using assms(2) by (simp add: takeWhile_append2)
  moreover have "dropWhile is_digit (ds @ 0x2E # rest) = 0x2E # rest"
    using assms(2) by (simp add: dropWhile_append2)
  ultimately show ?thesis using assms(1) by (simp add: strip_list_prefix_def)
qed

lemma strip_list_prefix_other:
  assumes "\<not> (\<exists>ds rest. ds \<noteq> [] \<and> (\<forall>c\<in>set ds. is_digit c) \<and> s = ds @ 0x2E # rest)"
  shows "strip_list_prefix s = s"
proof (rule ccontr)
  assume neq: "strip_list_prefix s \<noteq> s"
  then obtain rest where d: "dropWhile is_digit s = 0x2E # rest" and t: "takeWhile is_digit s \<noteq> []"
    unfolding strip_list_prefix_def by (auto split: list.splits if_splits)
  have "s = takeWhile is_digit s @ dropWhile is_digit s" by simp
  with d have "s = takeWhile is_digit s @ 0x2E # rest" by simp
  moreover have "\<forall>c\<in>set (takeWhile is_digit s). is_digit c"
    by (auto dest: set_takeWhileD)
  ultimately show False using assms t by blast
qed

lemma trim_middle:
  assumes "\<forall>c\<in>set a. is_space c" and "\<forall>c\<in>set b. is_space c"
    and "m = [] \<or> (\<not> is_space (hd m) \<and> \<not> is_space (last m))"
  shows "trim (a @ m @ b) = m"
proof (cases "m = []")
  case True
  with assms(1,2) have "\<forall>c\<in>set (a @ m @ b). is_space c" by auto
  then have dn: "dropWhile is_space (a @ m @ b) = []" by (simp only: dropWhile_eq_Nil_conv)
  have "trim (a @ m @ b) = rev (dropWhile is_space (rev (dropWhile is_space (a @ m @ b))))"
    by (simp only: trim_def)
  also have "\<dots> = []" by (simp only: dn rev.simps dropWhile.simps)
  finally show ?thesis using True by simp
next
  case False
  with assms(3) have h: "\<not> is_space (hd m)" and l: "\<not> is_space (last m)" by auto
  from False h have "dropWhile is_space (m @ b) = m @ b"
    by (cases m) auto
  with assms(1) have 1: "dropWhile is_space (a @ m @ b) = m @ b"
    by (simp add: dropWhile_append2)
  from False l have 2: "dropWhile is_space (rev m) = rev m"
    by (cases m rule: rev_cases) auto
  have "dropWhile is_space (rev b @ rev m) = dropWhile is_space (rev m)"
    using assms(2) by (intro dropWhile_append2) simp
  with 2 have 3: "dropWhile is_space (rev b @ rev m) = rev m" by simp
  have "trim (a @ m @ b) = rev (dropWhile is_space (rev (m @ b)))"
    by (simp only: trim_def 1)
  also have "\<dots> = rev (dropWhile is_space (rev b @ rev m))" by simp
  also have "\<dots> = m" by (simp only: 3 rev_rev_ident)
  finally show ?thesis .
qed

lemma raw_text_simps: "raw_text None = []" "raw_text (Some s) = trim s"
  by (simp_all add: raw_text_def)

lemma generate_Inr_chat:
  assumes "generate w contextText = Inr r"
  shows "\<exists>prompt_context trendsText completion soundCompletion.
           chat w (js ''You are a TikTok strategist who crafts viral captions.'')
             (captionPrompt prompt_context trendsText) = Inr completion
           \<and> chat w (js ''You recommend TikTok trending sounds.'')
               (soundPrompt prompt_context trendsText) = Inr soundCompletion
           \<and> r = res_json 200 (object
                 [(js ''ok'', Some (JBool True)),
                  (js ''captions'', Some (JArr (map JStr (parse_list 4 (raw_text completion))))),
                  (js ''sounds'', Some (JArr (map JStr (parse_list 3 (raw_text soundCompletion))))),
                  (js ''trends'', Some (fetched_trends w))])"
  using assms unfolding generate_def and_then_def Let_def
  by (auto split: sum.splits)

lemma status_simps [simp]:
  "status key_not_set = 500" "status bad_request = 400" "status (generation_failed e) = 500"
  "status (failed msg) = 500" "status not_found = 404" "status missing_name = 400"
  "status simulated = 200" "status (res_json st b) = st"
  by (simp_all add: key_not_set_def bad_request_def generation_failed_def failed_def
        not_found_def missing_name_def simulated_def res_json_def)

lemma generate_Inr:
  assumes "generate w contextText = Inr r"
  shows "\<exists>completion soundCompletion.
           r = res_json 200 (object
                 [(js ''ok'', Some (JBool True)),
                  (js ''captions'', Some (JArr (map JStr (parse_list 4 (raw_text completion))))),
                  (js ''sounds'', Some (JArr (map JStr (parse_list 3 (raw_text soundCompletion))))),
                  (js ''trends'', Some (fetched_trends w))])"
  using assms unfolding generate_def and_then_def Let_def
  by (auto split: sum.splits)

lemma post_api_caption_200:
  assumes "post_api_caption w fs req_file req_body = (r, fs')" and "status r = 200"
  shows "\<exists>contextText. generate w contextText = Inr r"
  using assms unfolding post_api_caption_def
  by (auto split: if_splits prod.splits step.splits sum.splits simp: context_step_def Let_def
      split: option.splits ffmpeg_result.splits)

section \<open>Properties of POST /api/caption\<close>

lemma key_not_set_body: "field (body key_not_set) (js ''ok'') = Some (JBool False)"
  by code_simp

lemma bad_request_body: "field (body bad_request) (js ''ok'') = Some (JBool False)"
  by code_simp

lemma generate_status: "generate w contextText = Inr r \<Longrightarrow> status r = 200"
  by (drule generate_Inr) auto

lemma post_api_caption_no_key:
  "OPENAI_API_KEY w = None \<or> OPENAI_API_KEY w = Some [] \<Longrightarrow>
     post_api_caption w fs req_file req_body = (key_not_set, fs)"
  by (auto simp: post_api_caption_def)

lemma post_api_caption_file:
  "post_api_caption w fs (Some v) req_body = post_api_caption w fs (Some v) None"
  by (simp add: post_api_caption_def context_step_def)

lemma post_api_caption_400:
  assumes "OPENAI_API_KEY w \<noteq> None" and "OPENAI_API_KEY w \<noteq> Some []"
  shows "status (fst (post_api_caption w fs req_file req_body)) = 400
           \<longleftrightarrow> req_file = None \<and> (\<exists>idea. get_prop req_body (js ''idea'') = Inr idea \<and> \<not> truthy idea)"
  using assms unfolding post_api_caption_def context_step_def Let_def
  by (auto split: option.splits ffmpeg_result.splits sum.splits dest: generate_status)

lemma post_api_caption_bad_request:
  assumes "OPENAI_API_KEY w \<noteq> None" and "OPENAI_API_KEY w \<noteq> Some []"
    and "req_file = None" and "get_prop req_body (js ''idea'') = Inr idea" and "\<not> truthy idea"
  shows "post_api_caption w fs req_file req_body = (bad_request, fs)"
  using assms unfolding post_api_caption_def context_step_def by auto

lemma key_distinct_caption [simp]:
  "js ''captions'' \<noteq> js ''ok''" "js ''captions'' \<noteq> js ''sounds''" "js ''captions'' \<noteq> js ''trends''"
  "js ''sounds'' \<noteq> js ''ok''" "js ''sounds'' \<noteq> js ''captions''" "js ''sounds'' \<noteq> js ''trends''"
  "js ''trends'' \<noteq> js ''captions''" "js ''trends'' \<noteq> js ''sounds''"
  "js ''ok'' \<noteq> js ''captions''" "js ''ok'' \<noteq> js ''sounds''"
  by (simp_all add: js_def)

lemma post_api_caption_200_chat:
  assumes "post_api_caption w fs req_file req_body = (r, fs')" and "status r = 200"
  shows "\<exists>prompt_context trendsText completion soundCompletion.
           chat w (js ''You are a TikTok strategist who crafts viral captions.'')
             (captionPrompt prompt_context trendsText) = Inr completion
           \<and> chat w (js ''You recommend TikTok trending sounds.'')
               (soundPrompt prompt_context trendsText) = Inr soundCompletion
           \<and> body r = object
                 [(js ''ok'', Some (JBool True)),
                  (js ''captions'', Some (JArr (map JStr (parse_list 4 (raw_text completion))))),
                  (js ''sounds'', Some (JArr (map JStr (parse_list 3 (raw_text soundCompletion))))),
                  (js ''trends'', Some (fetched_trends w))]
           \<and> length (parse_list 4 (raw_text completion)) \<le> 4
           \<and> length (parse_list 3 (raw_text soundCompletion)) \<le> 3"
proof -
  from assms obtain contextText where "generate w contextText = Inr r"
    using post_api_caption_200 by blast
  from generate_Inr_chat [OF this] obtain prompt_context trendsText completion soundCompletion where
    "chat w (js ''You are a TikTok strategist who crafts viral captions.'')
       (captionPrompt prompt_context trendsText) = Inr completion"
    "chat w (js ''You recommend TikTok trending sounds.'')
       (soundPrompt prompt_context trendsText) = Inr soundCompletion"
    "r = res_json 200 (object
           [(js ''ok'', Some (JBool True)),
            (js ''captions'', Some (JArr (map JStr (parse_list 4 (raw_text completion))))),
            (js ''sounds'', Some (JArr (map JStr (parse_list 3 (raw_text soundCompletion))))),
            (js ''trends'', Some (fetched_trends w))])"
    by blast
  moreover from this(3) have "body r = object
           [(js ''ok'', Some (JBool True)),
            (js ''captions'', Some (JArr (map JStr (parse_list 4 (raw_text completion))))),
            (js ''sounds'', Some (JArr (map JStr (parse_list 3 (raw_text soundCompletion))))),
            (js ''trends'', Some (fetched_trends w))]"
    by (simp add: res_json_def)
  ultimately show ?thesis using length_parse_list by blast
qed

lemma parse_list_entry_ends:
  "\<forall>c\<in>set (parse_list n raw). c \<noteq> [] \<and> \<not> is_space (hd c) \<and> \<not> is_space (last c) \<and> LF \<notin> set c"
  using parse_list_entry by blast

text \<open>
  Claim C2. Every response with status 200 carries the captions and the sounds that
  \<open>parse_list 4\<close> and \<open>parse_list 3\<close> make of the two replies of the model, the
  reply being the trimmed content of the completion (nothing, when there is none): at
  most 4 captions and at most 3 sounds. For every reply, \<open>parse_list n\<close> is the list
  of its lines, each with its numeric prefix stripped and then trimmed, without the
  empty ones, in their order, cut after the first \<open>n\<close>. What the three steps do is
  stated without their definitions: a string without a line feed is one line, and a
  string is cut at its first line feed, together with a carriage return directly before
  it; a line that starts with one or more digits and a dot loses them and the white
  space after the dot, and any other line is left as it is; trimming removes the white
  space around a text that neither starts nor ends with white space. Each entry of the
  list is therefore not empty, has no white space at either end and no line feed.
\<close>

theorem caption_lists_bounded:
  assumes "post_api_caption w fs req_file req_body = (r, fs')" and "status r = 200"
  shows "(\<exists>prompt_context trendsText completion soundCompletion.
           chat w (js ''You are a TikTok strategist who crafts viral captions.'')
             (captionPrompt prompt_context trendsText) = Inr completion
           \<and> chat w (js ''You recommend TikTok trending sounds.'')
               (soundPrompt prompt_context trendsText) = Inr soundCompletion
           \<and> body r = object
                 [(js ''ok'', Some (JBool True)),
                  (js ''captions'', Some (JArr (map JStr (parse_list 4 (raw_text completion))))),
                  (js ''sounds'', Some (JArr (map JStr (parse_list 3 (raw_text soundCompletion))))),
                  (js ''trends'', Some (fetched_trends w))]
           \<and> length (parse_list 4 (raw_text completion)) \<le> 4
           \<and> length (parse_list 3 (raw_text soundCompletion)) \<le> 3)
       \<and> raw_text None = []
       \<and> (\<forall>s. raw_text (Some s) = trim s)
       \<and> (\<forall>n raw. parse_list n raw =
             take n (filter (\<lambda>e. e \<noteq> []) (map (\<lambda>line. trim (strip_list_prefix line)) (split_lines raw))))
       \<and> (\<forall>n raw. length (parse_list n raw) \<le> n)
       \<and> (\<forall>n raw. \<forall>c\<in>set (parse_list n raw).
             c \<noteq> [] \<and> \<not> is_space (hd c) \<and> \<not> is_space (last c) \<and> LF \<notin> set c)
       \<and> (\<forall>a. LF \<notin> set a \<longrightarrow> split_lines a = [a])
       \<and> (\<forall>a b. LF \<notin> set a \<longrightarrow> split_lines (a @ CR # LF # b) = a # split_lines b)
       \<and> (\<forall>a b. LF \<notin> set a \<and> (a = [] \<or> last a \<noteq> CR) \<longrightarrow>
             split_lines (a @ LF # b) = a # split_lines b)
       \<and> (\<forall>ds rest. ds \<noteq> [] \<and> (\<forall>c\<in>set ds. is_digit c) \<longrightarrow>
             strip_list_prefix (ds @ 0x2E # rest) = dropWhile is_space rest)
       \<and> (\<forall>s. \<not> (\<exists>ds rest. ds \<noteq> [] \<and> (\<forall>c\<in>set ds. is_digit c) \<and> s = ds @ 0x2E # rest) \<longrightarrow>
             strip_list_prefix s = s)
       \<and> (\<forall>a m b. (\<forall>c\<in>set a. is_space c) \<and> (\<forall>c\<in>set b. is_space c)
               \<and> (m = [] \<or> (\<not> is_space (hd m) \<and> \<not> is_space (last m))) \<longrightarrow>
             trim (a @ m @ b) = m)"
proof (intro conjI)
  show "\<exists>prompt_context trendsText completion soundCompletion.
           chat w (js ''You are a TikTok strategist who crafts viral captions.'')
             (captionPrompt prompt_context trendsText) = Inr completion
           \<and> chat w (js ''You recommend TikTok trending sounds.'')
               (soundPrompt prompt_context trendsText) = Inr soundCompletion
           \<and> body r = object
                 [(js ''ok'', Some (JBool True)),
                  (js ''captions'', Some (JArr (map JStr (parse_list 4 (raw_text completion))))),
                  (js ''sounds'', Some (JArr (map JStr (parse_list 3 (raw_text soundCompletion))))),
                  (js ''trends'', Some (fetched_trends w))]
           \<and> length (parse_list 4 (raw_text completion)) \<le> 4
           \<and> length (parse_list 3 (raw_text soundCompletion)) \<le> 3"
    using assms by (rule post_api_caption_200_chat)
  show "raw_text None = []" by (rule raw_text_simps)
  show "\<forall>s. raw_text (Some s) = trim s" by (simp add: raw_text_simps)
  show "\<forall>n raw. parse_list n raw =
          take n (filter (\<lambda>e. e \<noteq> []) (map (\<lambda>line. trim (strip_list_prefix line)) (split_lines raw)))"
    by (simp add: parse_list_def)
  show "\<forall>n raw. length (parse_list n raw) \<le> n" by (simp add: length_parse_list)
  show "\<forall>n raw. \<forall>c\<in>set (parse_list n raw).
          c \<noteq> [] \<and> \<not> is_space (hd c) \<and> \<not> is_space (last c) \<and> LF \<notin> set c"
    using parse_list_entry_ends by blast
  show "\<forall>a. LF \<notin> set a \<longrightarrow> split_lines a = [a]"
    using split_lines_no_break by blast
  show "\<forall>a b. LF \<notin> set a \<longrightarrow> split_lines (a @ CR # LF # b) = a # split_lines b"
    using split_lines_CRLF by blast
  show "\<forall>a b. LF \<notin> set a \<and> (a = [] \<or> last a \<noteq> CR) \<longrightarrow>
          split_lines (a @ LF # b) = a # split_lines b"
    using split_lines_LF by blast
  show "\<forall>ds rest. ds \<noteq> [] \<and> (\<forall>c\<in>set ds. is_digit c) \<longrightarrow>
          strip_list_prefix (ds @ 0x2E # rest) = dropWhile is_space rest"
    using strip_list_prefix_numbered by blast
  show "\<forall>s. \<not> (\<exists>ds rest. ds \<noteq> [] \<and> (\<forall>c\<in>set ds. is_digit c) \<and> s = ds @ 0x2E # rest) \<longrightarrow>
          strip_list_prefix s = s"
    using strip_list_prefix_other by blast
  show "\<forall>a m b. (\<forall>c\<in>set a. is_space c) \<and> (\<forall>c\<in>set b. is_space c)
            \<and> (m = [] \<or> (\<not> is_space (hd m) \<and> \<not> is_space (last m))) \<longrightarrow>
          trim (a @ m @ b) = m"
    using trim_middle by blast
qed

text \<open>
  The theorem at a request with an idea, in the world where the model answers both
  prompts with five numbered lines (one line break a carriage return and a line feed,
  one line empty): the response has status 200, four captions and three sounds. The
  statements about the three steps at concrete strings.
\<close>

theorem caption_lists_bounded_witness:
  "status (fst (post_api_caption world_ok {} None idea_body)) = 200
   \<and> field (body (fst (post_api_caption world_ok {} None idea_body))) (js ''captions'') =
       Some (JArr [JStr (js ''A''), JStr (js ''B''), JStr (js ''C''), JStr (js ''D'')])
   \<and> field (body (fst (post_api_caption world_ok {} None idea_body))) (js ''sounds'') =
       Some (JArr [JStr (js ''A''), JStr (js ''B''), JStr (js ''C'')])
   \<and> split_lines (js ''a'' @ CR # LF # js ''b'' @ LF # js ''c'') = [js ''a'', js ''b'', js ''c'']
   \<and> strip_list_prefix (js ''12.  x'') = js ''x''
   \<and> strip_list_prefix (js '' 1. x'') = js '' 1. x''
   \<and> trim (js '' x y  '') = js ''x y''"
proof -
  let ?X = "post_api_caption world_ok {} None idea_body"
  let ?reply = "[0x31, 0x2E, 0x20, 0x41, LF, 0x32, 0x2E, 0x20, 0x42, CR, LF, LF,
                 0x33, 0x2E, 0x20, 0x43, LF, 0x34, 0x2E, 0x20, 0x44, LF, 0x35, 0x2E, 0x20, 0x45] :: jstring"
  have st: "status (fst ?X) = 200"
    by code_simp
  have eq: "?X = (fst ?X, snd ?X)"
    by simp
  note T = caption_lists_bounded [OF eq st]
  from T [THEN conjunct1] obtain prompt_context trendsText completion soundCompletion where
    c1: "chat world_ok (js ''You are a TikTok strategist who crafts viral captions.'')
           (captionPrompt prompt_context trendsText) = Inr completion"
    and c2: "chat world_ok (js ''You recommend TikTok trending sounds.'')
           (soundPrompt prompt_context trendsText) = Inr soundCompletion"
    and br: "body (fst ?X) = object
                 [(js ''ok'', Some (JBool True)),
                  (js ''captions'', Some (JArr (map JStr (parse_list 4 (raw_text completion))))),
                  (js ''sounds'', Some (JArr (map JStr (parse_list 3 (raw_text soundCompletion))))),
                  (js ''trends'', Some (fetched_trends world_ok))]"
    by blast
  from c1 have completion: "completion = Some ?reply"
    by (simp add: world_ok_def)
  from c2 have soundCompletion: "soundCompletion = Some ?reply"
    by (simp add: world_ok_def)
  have p4: "parse_list 4 (raw_text (Some ?reply)) = [js ''A'', js ''B'', js ''C'', js ''D'']"
    by code_simp
  have p3: "parse_list 3 (raw_text (Some ?reply)) = [js ''A'', js ''B'', js ''C'']"
    by code_simp
  have captions: "field (body (fst ?X)) (js ''captions'') =
       Some (JArr [JStr (js ''A''), JStr (js ''B''), JStr (js ''C''), JStr (js ''D'')])"
    by (simp add: br completion p4 field_object)
  have sounds: "field (body (fst ?X)) (js ''sounds'') =
       Some (JArr [JStr (js ''A''), JStr (js ''B''), JStr (js ''C'')])"
    by (simp add: br soundCompletion p3 field_object)
  note T7 = T [THEN conjunct2, THEN conjunct2, THEN conjunct2, THEN conjunct2, THEN conjunct2,
    THEN conjunct2]
  note nb = T7 [THEN conjunct1]
  note crlf = T7 [THEN conjunct2, THEN conjunct1]
  note lf = T7 [THEN conjunct2, THEN conjunct2, THEN conjunct1]
  note num = T7 [THEN conjunct2, THEN conjunct2, THEN conjunct2, THEN conjunct1]
  note oth = T7 [THEN conjunct2, THEN conjunct2, THEN conjunct2, THEN conjunct2, THEN conjunct1]
  note tr = T7 [THEN conjunct2, THEN conjunct2, THEN conjunct2, THEN conjunct2, THEN conjunct2]
  have l1: "split_lines (js ''c'') = [js ''c'']"
    using nb [rule_format, of "js ''c''"] by (simp add: js_def)
  have l2: "split_lines (js ''b'' @ LF # js ''c'') = js ''b'' # split_lines (js ''c'')"
    using lf [rule_format, of "js ''b''" "js ''c''"] by (simp add: js_def)
  have l3: "split_lines (js ''a'' @ CR # LF # js ''b'' @ LF # js ''c'') =
      js ''a'' # split_lines (js ''b'' @ LF # js ''c'')"
    using crlf [rule_format, of "js ''a''" "js ''b'' @ LF # js ''c''"] by (simp add: js_def)
  have lines: "split_lines (js ''a'' @ CR # LF # js ''b'' @ LF # js ''c'') = [js ''a'', js ''b'', js ''c'']"
    by (simp only: l1 l2 l3)
  have "strip_list_prefix (js ''12'' @ 0x2E # js ''  x'') = dropWhile is_space (js ''  x'')"
    using num [rule_format, of "js ''12''" "js ''  x''"] by (simp add: js_def is_digit_def)
  then have s1: "strip_list_prefix (js ''12.  x'') = js ''x''"
    by (simp add: js_def is_space_def)
  have "\<not> (\<exists>ds rest. ds \<noteq> [] \<and> (\<forall>c\<in>set ds. is_digit c) \<and> js '' 1. x'' = ds @ 0x2E # rest)"
  proof
    assume "\<exists>ds rest. ds \<noteq> [] \<and> (\<forall>c\<in>set ds. is_digit c) \<and> js '' 1. x'' = ds @ 0x2E # rest"
    then obtain ds rest where ds: "ds \<noteq> []" "\<forall>c\<in>set ds. is_digit c"
      and e: "js '' 1. x'' = ds @ 0x2E # rest"
      by blast
    from ds(1) have "hd (ds @ 0x2E # rest) = hd ds" by simp
    with e have "hd ds = hd (js '' 1. x'')" by simp
    then have "hd ds = 0x20" by (simp add: js_def)
    moreover from ds have "is_digit (hd ds)" by simp
    ultimately show False by (simp add: is_digit_def)
  qed
  then have s2: "strip_list_prefix (js '' 1. x'') = js '' 1. x''"
    using oth [rule_format, of "js '' 1. x''"] by blast
  have "trim (js '' '' @ js ''x y'' @ js ''  '') = js ''x y''"
    using tr [rule_format, of "js '' ''" "js ''  ''" "js ''x y''"] by (simp add: js_def is_space_def)
  then have t1: "trim (js '' x y  '') = js ''x y''"
    by (simp add: js_def)
  from st captions sounds lines s1 s2 t1 show ?thesis by simp
qed

text \<open>
  Claim C4, as stated, fails where both an upload and an idea are supplied: the handler
  takes the upload and never looks at the idea, so the request succeeds.
\<close>

theorem both_supplied_counterexample:
  "status (fst (post_api_caption world_ok {video} (Some video) idea_body)) = 200
   \<and> fst (post_api_caption world_ok {video} (Some video) idea_body) \<noteq> bad_request"
proof -
  have st: "status (fst (post_api_caption world_ok {video} (Some video) idea_body)) = 200"
    by code_simp
  then have "fst (post_api_caption world_ok {video} (Some video) idea_body) \<noteq> bad_request"
    by auto
  with st show ?thesis by simp
qed

lemma get_prop_parsed: "b \<noteq> JNull \<Longrightarrow> get_prop (Some b) k = Inr (field b k)"
  by (cases b) (simp_all add: get_prop_def)

lemma post_api_caption_parsed_status:
  assumes "OPENAI_API_KEY w \<noteq> None" and "OPENAI_API_KEY w \<noteq> Some []" and "b \<noteq> JNull"
  shows "status (fst (post_api_caption w fs None (Some b))) = 400 \<longleftrightarrow> \<not> truthy (field b (js ''idea''))"
  using post_api_caption_400 [OF assms(1,2), of fs None "Some b"] get_prop_parsed [OF assms(3)]
  by simp

lemma post_api_caption_parsed_falsy:
  assumes "OPENAI_API_KEY w \<noteq> None" and "OPENAI_API_KEY w \<noteq> Some []" and "b \<noteq> JNull"
    and "\<not> truthy (field b (js ''idea''))"
  shows "post_api_caption w fs None (Some b) = (bad_request, fs)"
  using post_api_caption_bad_request [OF assms(1,2) refl get_prop_parsed [OF assms(3)] assms(4)] .

lemma post_api_caption_parsed_response:
  assumes "OPENAI_API_KEY w \<noteq> None" and "OPENAI_API_KEY w \<noteq> Some []" and "b \<noteq> JNull"
  shows "fst (post_api_caption w fs None (Some b)) = bad_request \<longleftrightarrow> \<not> truthy (field b (js ''idea''))"
proof
  assume "fst (post_api_caption w fs None (Some b)) = bad_request"
  then have "status (fst (post_api_caption w fs None (Some b))) = 400" by simp
  with post_api_caption_parsed_status [OF assms] show "\<not> truthy (field b (js ''idea''))" by simp
next
  assume "\<not> truthy (field b (js ''idea''))"
  from post_api_caption_parsed_falsy [OF assms this]
  show "fst (post_api_caption w fs None (Some b)) = bad_request" by simp
qed

lemma post_api_caption_upload_not_400:
  assumes "OPENAI_API_KEY w \<noteq> None" and "OPENAI_API_KEY w \<noteq> Some []"
  shows "status (fst (post_api_caption w fs (Some v) req_body)) \<noteq> 400"
  using post_api_caption_400 [OF assms, of fs "Some v" req_body] by simp

text \<open>
  Claim C4, amended. Without a configured key (the variable unset or empty) the handler
  answers with the configuration error, status 500 and \<open>ok\<close> false, whatever the
  request. With a key, a request with an upload is processed from the upload, whatever
  its body holds, and is never answered with the bad-request error; a request without
  an upload whose body was parsed to a value \<open>b\<close> is answered with the bad-request
  error, status 400 and \<open>ok\<close> false, exactly when the idea of \<open>b\<close> is missing or
  falsy. Nothing is stated about a request with neither an upload nor a parsed body.
\<close>

theorem caption_request_errors:
  "(OPENAI_API_KEY w = None \<or> OPENAI_API_KEY w = Some [] \<longrightarrow>
      post_api_caption w fs req_file req_body = (key_not_set, fs))
   \<and> (OPENAI_API_KEY w \<noteq> None \<and> OPENAI_API_KEY w \<noteq> Some [] \<longrightarrow>
        status (fst (post_api_caption w fs (Some v) req_body)) \<noteq> 400
        \<and> post_api_caption w fs (Some v) req_body = post_api_caption w fs (Some v) None
        \<and> (b \<noteq> JNull \<longrightarrow>
              (status (fst (post_api_caption w fs None (Some b))) = 400
                 \<longleftrightarrow> \<not> truthy (field b (js ''idea'')))
            \<and> (fst (post_api_caption w fs None (Some b)) = bad_request
                 \<longleftrightarrow> \<not> truthy (field b (js ''idea'')))
            \<and> (\<not> truthy (field b (js ''idea'')) \<longrightarrow>
                 post_api_caption w fs None (Some b) = (bad_request, fs))))
   \<and> status key_not_set = 500 \<and> field (body key_not_set) (js ''ok'') = Some (JBool False)
   \<and> status bad_request = 400 \<and> field (body bad_request) (js ''ok'') = Some (JBool False)"
proof -
  have a: "OPENAI_API_KEY w = None \<or> OPENAI_API_KEY w = Some [] \<longrightarrow>
      post_api_caption w fs req_file req_body = (key_not_set, fs)"
    using post_api_caption_no_key by blast
  have b: "OPENAI_API_KEY w \<noteq> None \<and> OPENAI_API_KEY w \<noteq> Some [] \<longrightarrow>
        status (fst (post_api_caption w fs (Some v) req_body)) \<noteq> 400
        \<and> post_api_caption w fs (Some v) req_body = post_api_caption w fs (Some v) None
        \<and> (b \<noteq> JNull \<longrightarrow>
              (status (fst (post_api_caption w fs None (Some b))) = 400
                 \<longleftrightarrow> \<not> truthy (field b (js ''idea'')))
            \<and> (fst (post_api_caption w fs None (Some b)) = bad_request
                 \<longleftrightarrow> \<not> truthy (field b (js ''idea'')))
            \<and> (\<not> truthy (field b (js ''idea'')) \<longrightarrow>
                 post_api_caption w fs None (Some b) = (bad_request, fs)))"
    using post_api_caption_upload_not_400 post_api_caption_file post_api_caption_parsed_status
      post_api_caption_parsed_response post_api_caption_parsed_falsy
    by blast
  have c: "status key_not_set = 500 \<and> field (body key_not_set) (js ''ok'') = Some (JBool False)
      \<and> status bad_request = 400 \<and> field (body bad_request) (js ''ok'') = Some (JBool False)"
    by (simp add: key_not_set_body bad_request_body)
  show ?thesis
    by (rule conjI [OF a conjI [OF b c]])
qed

text \<open>
  The theorem without a key, with the body \<^verbatim>\<open>{}\<close> and no upload, with an idea and
  no upload, and with both an upload and an idea.
\<close>

theorem caption_request_errors_witness:
  "post_api_caption (world_ok\<lparr>OPENAI_API_KEY := None\<rparr>) {} None idea_body = (key_not_set, {})
   \<and> post_api_caption world_ok {} None (Some (JObj fmempty)) = (bad_request, {})
   \<and> status (fst (post_api_caption world_ok {} None (Some (JObj fmempty)))) = 400
   \<and> status (fst (post_api_caption world_ok {} None idea_body)) \<noteq> 400
   \<and> status (fst (post_api_caption world_ok {video} (Some video) idea_body)) \<noteq> 400"
proof -
  have k: "OPENAI_API_KEY world_ok \<noteq> None \<and> OPENAI_API_KEY world_ok \<noteq> Some []"
    by (simp add: world_ok_def js_def)
  have e: "\<not> truthy (field (JObj fmempty) (js ''idea''))"
    by simp
  have i: "truthy (field (JObj (fmap_of_list [(js ''idea'', JStr (js ''cats''))])) (js ''idea''))"
    by (simp add: js_def)
  have 1: "post_api_caption (world_ok\<lparr>OPENAI_API_KEY := None\<rparr>) {} None idea_body = (key_not_set, {})"
    using caption_request_errors
      [where w = "world_ok\<lparr>OPENAI_API_KEY := None\<rparr>" and fs = "{}" and req_file = None
         and req_body = idea_body]
    by simp
  have 2: "post_api_caption world_ok {} None (Some (JObj fmempty)) = (bad_request, {})
      \<and> status (fst (post_api_caption world_ok {} None (Some (JObj fmempty)))) = 400"
    using caption_request_errors [where w = world_ok and fs = "{}" and b = "JObj fmempty"] k e
    by simp
  have 3: "status (fst (post_api_caption world_ok {} None idea_body)) \<noteq> 400"
    using caption_request_errors
      [where w = world_ok and fs = "{}" and b = "JObj (fmap_of_list [(js ''idea'', JStr (js ''cats''))])"]
      k i
    by (simp add: idea_body_def)
  have 4: "status (fst (post_api_caption world_ok {video} (Some video) idea_body)) \<noteq> 400"
    using caption_request_errors
      [where w = world_ok and fs = "{video}" and req_body = idea_body and v = video and b = JNull]
      k
    by blast
  from 1 2 3 4 show ?thesis by simp
qed

section \<open>Properties of the drafts store\<close>

lemma findIndex_Some:
  "findIndex p xs = Inr (Some i) \<Longrightarrow>
     i < length xs \<and> p (xs ! i) = Inr True \<and> (\<forall>j<i. p (xs ! j) = Inr False)"
proof (induction xs arbitrary: i)
  case Nil
  then show ?case by simp
next
  case (Cons x xs)
  show ?case
  proof (cases "p x")
    case (Inl e)
    with Cons.prems show ?thesis by simp
  next
    case (Inr b)
    show ?thesis
    proof (cases b)
      case True
      with Inr Cons.prems show ?thesis by simp
    next
      case False
      with Inr Cons.prems obtain i' where i': "findIndex p xs = Inr (Some i')" "i = Suc i'"
        by (auto split: sum.splits option.splits)
      from Cons.IH[OF i'(1)] have ih: "i' < length xs" "p (xs ! i') = Inr True"
        "\<forall>j<i'. p (xs ! j) = Inr False" by auto
      have "\<forall>j<i. p ((x # xs) ! j) = Inr False"
      proof (intro allI impI)
        fix j assume "j < i"
        then show "p ((x # xs) ! j) = Inr False"
          using ih(3) i'(2) Inr False by (cases j) auto
      qed
      with ih i'(2) show ?thesis by simp
    qed
  qed
qed

lemma findIndex_None:
  "\<forall>x\<in>set xs. p x = Inr False \<Longrightarrow> findIndex p xs = Inr None"
  by (induction xs) auto

lemma has_id_True: "has_id i d = Inr True \<longleftrightarrow> field d (js ''id'') = Some (JStr i)"
  by (cases d) (auto simp: has_id_def and_then_def get_prop_def)

lemma has_id_not_null: "d \<noteq> JNull \<Longrightarrow> has_id i d = Inr (field d (js ''id'') = Some (JStr i))"
  by (cases d) (auto simp: has_id_def and_then_def get_prop_def)

lemma destructure_Inr:
  "destructure req_body = Inr (name, caption, hashtags) \<longleftrightarrow>
     (\<exists>b. req_body = Some b \<and> b \<noteq> JNull \<and> name = field b (js ''name'')
        \<and> caption = field b (js ''caption'') \<and> hashtags = field b (js ''hashtags''))"
  by (cases req_body; cases "the req_body") (auto simp: destructure_def)

lemma merge_draft_obj:
  "merge_draft (JObj m) name caption hashtags updated =
     Inr (JObj (set_props m
       [(js ''name'', coalesce name (fmlookup m (js ''name''))),
        (js ''caption'', coalesce caption (fmlookup m (js ''caption''))),
        (js ''hashtags'', coalesce hashtags (fmlookup m (js ''hashtags''))),
        (js ''updated'', Some (JStr updated))]))"
  by (simp add: merge_draft_def and_then_def get_prop_def coalesce_with_def coalesce_def)

lemma field_merged:
  assumes "merge_draft cur name caption hashtags updated = Inr item"
    and "field cur (js ''id'') = Some (JStr i)"
  shows "field item k =
     (if k = js ''updated'' then Some (JStr updated)
      else if k = js ''hashtags'' then coalesce hashtags (field cur k)
      else if k = js ''caption'' then coalesce caption (field cur k)
      else if k = js ''name'' then coalesce name (field cur k)
      else field cur k)"
proof -
  from assms(2) obtain m where m: "cur = JObj m" by (cases cur) auto
  with assms(1) show ?thesis
    by (auto simp: merge_draft_obj fmlookup_set_props simp del: set_props.simps)
qed

lemma put_api_drafts_200:
  assumes "put_api_drafts id' req_body updated wr d = (r, d')" and "status r = 200"
  shows "\<exists>b drafts idx item.
           req_body = Some b \<and> b \<noteq> JNull \<and> readDrafts d = JArr drafts
           \<and> findIndex (has_id id') drafts = Inr (Some idx)
           \<and> merge_draft (drafts ! idx) (field b (js ''name'')) (field b (js ''caption''))
                (field b (js ''hashtags'')) updated = Inr item
           \<and> r = res_json 200 (object [(js ''ok'', Some (JBool True)), (js ''draft'', Some item)])
           \<and> d' = d\<lparr>drafts_file := Some (JArr (drafts[idx := item])),
                    written := JArr (drafts[idx := item]) # written d\<rparr>"
proof -
  from assms obtain name caption hashtags where ds: "destructure req_body = Inr (name, caption, hashtags)"
    unfolding put_api_drafts_def by (cases "destructure req_body") auto
  then obtain b where b: "req_body = Some b" "b \<noteq> JNull" "name = field b (js ''name'')"
    "caption = field b (js ''caption'')" "hashtags = field b (js ''hashtags'')"
    using destructure_Inr by blast
  from assms ds obtain drafts where rd: "readDrafts d = JArr drafts"
    unfolding put_api_drafts_def by (cases "readDrafts d") auto
  from assms ds rd obtain idx where fi: "findIndex (has_id id') drafts = Inr (Some idx)"
    unfolding put_api_drafts_def by (auto split: sum.splits option.splits)
  from assms ds rd fi obtain item where
    mg: "merge_draft (drafts ! idx) name caption hashtags updated = Inr item"
    unfolding put_api_drafts_def by (auto split: sum.splits)
  from assms ds rd fi mg have
    "r = res_json 200 (object [(js ''ok'', Some (JBool True)), (js ''draft'', Some item)])
     \<and> d' = d\<lparr>drafts_file := Some (JArr (drafts[idx := item])),
              written := JArr (drafts[idx := item]) # written d\<rparr>"
    unfolding put_api_drafts_def writeDrafts_def
    by (auto split: write_result.splits)
  with b rd fi mg show ?thesis by blast
qed

lemma post_api_drafts_missing:
  assumes "destructure req_body = Inr (name, caption, hashtags)" and "\<not> truthy name"
  shows "post_api_drafts req_body now created wr d = (missing_name, d)"
  using assms by (simp add: post_api_drafts_def)

lemma post_api_drafts_ok:
  assumes "destructure req_body = Inr (name, caption, hashtags)" and "truthy name"
    and "readDrafts d = JArr drafts"
  shows "post_api_drafts req_body now created WriteOk d =
     (res_json 200 (object [(js ''ok'', Some (JBool True)),
                            (js ''draft'', Some (new_draft now created name caption hashtags))]),
      d\<lparr>drafts_file := Some (JArr (new_draft now created name caption hashtags # drafts)),
        written := JArr (new_draft now created name caption hashtags # drafts) # written d\<rparr>)"
  using assms by (simp add: post_api_drafts_def writeDrafts_def Let_def)

lemma key_distinct_new [simp]:
  "js ''id'' \<noteq> js ''name''" "js ''id'' \<noteq> js ''caption''" "js ''id'' \<noteq> js ''hashtags''"
  "js ''id'' \<noteq> js ''created''" "js ''id'' \<noteq> js ''updated''"
  "js ''created'' \<noteq> js ''id''" "js ''created'' \<noteq> js ''name''" "js ''created'' \<noteq> js ''caption''"
  "js ''created'' \<noteq> js ''hashtags''" "js ''created'' \<noteq> js ''updated''"
  "js ''name'' \<noteq> js ''id''" "js ''caption'' \<noteq> js ''id''" "js ''hashtags'' \<noteq> js ''id''"
  "js ''name'' \<noteq> js ''created''" "js ''caption'' \<noteq> js ''created''" "js ''hashtags'' \<noteq> js ''created''"
  "js ''updated'' \<noteq> js ''id''" "js ''updated'' \<noteq> js ''created''"
  by (simp_all add: js_def)

lemma field_new_draft:
  "field (new_draft now created name caption hashtags) k =
     (if k = js ''created'' then Some (JStr created)
      else if k = js ''hashtags'' then or_else hashtags (Some (JStr []))
      else if k = js ''caption'' then or_else caption (Some (JStr []))
      else if k = js ''name'' then name
      else if k = js ''id'' then Some (JStr (draft_id now))
      else None)"
  by (simp add: new_draft_def field_object)

lemma not_found_body:
  "body not_found =
     object [(js ''ok'', Some (JBool False)), (js ''error'', Some (JStr (js ''Draft not found'')))]"
  by (simp add: not_found_def res_json_def)

lemma missing_name_body:
  "body missing_name =
     object [(js ''ok'', Some (JBool False)), (js ''error'', Some (JStr (js ''Missing name'')))]"
  by (simp add: missing_name_def res_json_def)

lemma findIndex_has_id_None:
  assumes "\<forall>x\<in>set drafts. x \<noteq> JNull \<and> field x (js ''id'') \<noteq> Some (JStr i)"
  shows "findIndex (has_id i) drafts = Inr None"
  using assms by (intro findIndex_None) (simp add: has_id_not_null)

lemma create_draft_parsed_body:
  assumes "destructure req_body = Inr (name, caption, hashtags)"
  shows "(\<not> truthy name \<longrightarrow>
            post_api_drafts req_body now created wr d = (missing_name, d))
       \<and> (truthy name \<and> drafts_file d = Some (JArr drafts) \<longrightarrow>
            post_api_drafts req_body now created WriteOk d =
              (res_json 200 (object
                 [(js ''ok'', Some (JBool True)),
                  (js ''draft'', Some (new_draft now created name caption hashtags))]),
               d\<lparr>drafts_file := Some (JArr (new_draft now created name caption hashtags # drafts)),
                 written := JArr (new_draft now created name caption hashtags # drafts) # written d\<rparr>))
       \<and> (truthy name \<and> drafts_file d = None \<longrightarrow>
            post_api_drafts req_body now created WriteOk d =
              (res_json 200 (object
                 [(js ''ok'', Some (JBool True)),
                  (js ''draft'', Some (new_draft now created name caption hashtags))]),
               d\<lparr>drafts_file := Some (JArr [new_draft now created name caption hashtags]),
                 written := JArr [new_draft now created name caption hashtags] # written d\<rparr>))"
proof (intro conjI impI)
  assume "\<not> truthy name"
  with assms show "post_api_drafts req_body now created wr d = (missing_name, d)"
    by (rule post_api_drafts_missing)
next
  assume a: "truthy name \<and> drafts_file d = Some (JArr drafts)"
  then have "readDrafts d = JArr drafts" by (simp add: readDrafts_def)
  with assms a show "post_api_drafts req_body now created WriteOk d =
              (res_json 200 (object
                 [(js ''ok'', Some (JBool True)),
                  (js ''draft'', Some (new_draft now created name caption hashtags))]),
               d\<lparr>drafts_file := Some (JArr (new_draft now created name caption hashtags # drafts)),
                 written := JArr (new_draft now created name caption hashtags # drafts) # written d\<rparr>)"
    by (simp add: post_api_drafts_ok)
next
  assume a: "truthy name \<and> drafts_file d = None"
  then have "readDrafts d = JArr []" by (simp add: readDrafts_def)
  with assms a show "post_api_drafts req_body now created WriteOk d =
              (res_json 200 (object
                 [(js ''ok'', Some (JBool True)),
                  (js ''draft'', Some (new_draft now created name caption hashtags))]),
               d\<lparr>drafts_file := Some (JArr [new_draft now created name caption hashtags]),
                 written := JArr [new_draft now created name caption hashtags] # written d\<rparr>)"
    by (simp add: post_api_drafts_ok)
qed

lemma create_on_stored_draft:
  "status (fst (post_api_drafts name_body 1700000000000 (js ''t1'') WriteOk disk1)) = 200
   \<and> listed_ids (snd (post_api_drafts name_body 1700000000000 (js ''t1'') WriteOk disk1)) =
       [Some (JStr (js ''draft_1700000000000'')), Some (JStr (js ''draft_1''))]"
  by code_simp

text \<open>
  Claim C6 holds of every request whose body was parsed: if the name is missing, which
  the guard \<^verbatim>\<open>!name\<close> takes to mean absent or falsy, the handler answers 400 with
  \<open>Missing name\<close> and leaves the disk as it was; otherwise, when the write succeeds,
  it answers 200 with the new record and the file holds the new record in front of the
  stored array (\<open>create_draft_parsed_body\<close>, \<open>field_new_draft\<close>,
  \<open>create_on_stored_draft\<close>). It does not hold of a request without a body, where
  \<^verbatim>\<open>req.body\<close> is \<^verbatim>\<open>undefined\<close>: the destructuring at line 288 throws before
  the guard on the name is reached, and the handler answers 500 with
  \<open>Failed to save draft\<close>, not 400 with \<open>Missing name\<close>.
\<close>

theorem create_without_body:
  "post_api_drafts None now created wr d = (failed ''Failed to save draft'', d)
   \<and> status (failed ''Failed to save draft'') = 500
   \<and> failed ''Failed to save draft'' \<noteq> missing_name"
proof -
  have "post_api_drafts None now created wr d = (failed ''Failed to save draft'', d)"
    by (simp add: post_api_drafts_def destructure_def)
  moreover have "failed ''Failed to save draft'' \<noteq> missing_name"
  proof
    assume "failed ''Failed to save draft'' = missing_name"
    then have "status (failed ''Failed to save draft'') = status missing_name" by simp
    then show False by simp
  qed
  ultimately show ?thesis by simp
qed

text \<open>
  Claim C9. When the drafts file holds an array of records none of which has the
  requested id, both \<^verbatim>\<open>PUT /api/drafts/:id\<close> (with a request body) and
  \<^verbatim>\<open>DELETE /api/drafts/:id\<close> answer 404 with
  \<^verbatim>\<open>{ ok: false, error: "Draft not found" }\<close> and leave the disk as it was, the log
  of writes included: nothing is written, whatever a write would have done.
\<close>

theorem unknown_id_not_found:
  assumes "readDrafts d = JArr drafts"
    and "\<forall>x\<in>set drafts. x \<noteq> JNull \<and> field x (js ''id'') \<noteq> Some (JStr id')"
    and "req_body \<noteq> None" and "req_body \<noteq> Some JNull"
  shows "put_api_drafts id' req_body updated wr d = (not_found, d)
       \<and> delete_api_drafts id' wr d = (not_found, d)
       \<and> status not_found = 404
       \<and> body not_found =
            object [(js ''ok'', Some (JBool False)), (js ''error'', Some (JStr (js ''Draft not found'')))]"
proof -
  have fi: "findIndex (has_id id') drafts = Inr None"
    using assms(2) by (rule findIndex_has_id_None)
  from assms(3,4) obtain b where b: "req_body = Some b" "b \<noteq> JNull" by auto
  then have "\<exists>n c h. destructure req_body = Inr (n, c, h)"
    by (simp add: destructure_Inr)
  then have "put_api_drafts id' req_body updated wr d = (not_found, d)"
    using assms(1) fi by (auto simp: put_api_drafts_def)
  moreover have "delete_api_drafts id' wr d = (not_found, d)"
    using assms(1) fi by (simp add: delete_api_drafts_def)
  ultimately show ?thesis using not_found_body by simp
qed

text \<open>The theorem at the id \<^verbatim>\<open>unknown-id\<close> on the store with one draft.\<close>

theorem unknown_id_not_found_witness:
  "readDrafts disk1 = JArr [draft1]
   \<and> put_api_drafts (js ''unknown-id'') name_body (js ''t1'') WriteOk disk1 = (not_found, disk1)
   \<and> delete_api_drafts (js ''unknown-id'') WriteOk disk1 = (not_found, disk1)
   \<and> status not_found = 404"
proof -
  have rd: "readDrafts disk1 = JArr [draft1]"
    by (simp add: readDrafts_def disk1_def)
  have ids: "\<forall>x\<in>set [draft1]. x \<noteq> JNull \<and> field x (js ''id'') \<noteq> Some (JStr (js ''unknown-id''))"
    by (simp add: draft1_def js_def)
  have b: "name_body \<noteq> None" "name_body \<noteq> Some JNull"
    by (simp_all add: name_body_def)
  from unknown_id_not_found [OF rd ids b, where updated = "js ''t1''" and wr = WriteOk] rd
  show ?thesis by simp
qed



text \<open>
  Claim C10. In every update that answers 200, a field \<open>name\<close>, \<open>caption\<close> or
  \<open>hashtags\<close> that the patch sets to \<^verbatim>\<open>null\<close> keeps the value of the stored record
  (\<^verbatim>\<open>??\<close> treats \<^verbatim>\<open>null\<close> as absent), and the merged record carries the
  \<open>updated\<close> time stamp and is written to the file, whether or not the patch changes
  anything else.
\<close>

theorem null_patch_field_keeps_value:
  assumes "put_api_drafts id' req_body updated wr d = (r, d')" and "status r = 200"
  shows "\<exists>patch drafts idx item.
           req_body = Some patch \<and> readDrafts d = JArr drafts \<and> idx < length drafts
           \<and> field (drafts ! idx) (js ''id'') = Some (JStr id')
           \<and> body r = object [(js ''ok'', Some (JBool True)), (js ''draft'', Some item)]
           \<and> drafts_file d' = Some (JArr (drafts[idx := item]))
           \<and> written d' = JArr (drafts[idx := item]) # written d
           \<and> (\<forall>k\<in>{js ''name'', js ''caption'', js ''hashtags''}.
                 field patch k = Some JNull \<longrightarrow> field item k = field (drafts ! idx) k)
           \<and> field item (js ''updated'') = Some (JStr updated)"
proof -
  from put_api_drafts_200 [OF assms] obtain b drafts idx item where
    b: "req_body = Some b" and rd: "readDrafts d = JArr drafts"
    and fi: "findIndex (has_id id') drafts = Inr (Some idx)"
    and mg: "merge_draft (drafts ! idx) (field b (js ''name'')) (field b (js ''caption''))
                (field b (js ''hashtags'')) updated = Inr item"
    and r: "r = res_json 200 (object [(js ''ok'', Some (JBool True)), (js ''draft'', Some item)])"
    and d': "d' = d\<lparr>drafts_file := Some (JArr (drafts[idx := item])),
                    written := JArr (drafts[idx := item]) # written d\<rparr>"
    by blast
  from findIndex_Some [OF fi] have idx: "idx < length drafts"
    and cur: "field (drafts ! idx) (js ''id'') = Some (JStr id')"
    by (simp_all add: has_id_True)
  note fm = field_merged [OF mg cur]
  have 1: "\<forall>k\<in>{js ''name'', js ''caption'', js ''hashtags''}.
             field b k = Some JNull \<longrightarrow> field item k = field (drafts ! idx) k"
    by (simp add: fm coalesce_def nullish_def)
  have 2: "field item (js ''updated'') = Some (JStr updated)"
    by (simp add: fm)
  have br: "body r = object [(js ''ok'', Some (JBool True)), (js ''draft'', Some item)]"
    using r by (simp add: res_json_def)
  have df: "drafts_file d' = Some (JArr (drafts[idx := item]))"
    and wl: "written d' = JArr (drafts[idx := item]) # written d"
    using d' by simp_all
  from b rd idx cur br df wl 1 2 show ?thesis
    by blast
qed

text \<open>The theorem at the patch \<^verbatim>\<open>{ "name": null, "caption": "new" }\<close>.\<close>

theorem null_patch_field_keeps_value_witness:
  "status (fst (put_api_drafts (js ''draft_1'') null_name_patch (js ''t1'') WriteOk disk1)) = 200
   \<and> (\<exists>item.
         body (fst (put_api_drafts (js ''draft_1'') null_name_patch (js ''t1'') WriteOk disk1)) =
           object [(js ''ok'', Some (JBool True)), (js ''draft'', Some item)]
         \<and> field item (js ''name'') = Some (JStr (js ''n''))
         \<and> field item (js ''updated'') = Some (JStr (js ''t1'')))"
proof -
  let ?X = "put_api_drafts (js ''draft_1'') null_name_patch (js ''t1'') WriteOk disk1"
  have st: "status (fst ?X) = 200"
    by code_simp
  have eq: "?X = (fst ?X, snd ?X)"
    by simp
  from null_patch_field_keeps_value [OF eq st] obtain patch drafts idx item where
    p: "null_name_patch = Some patch" and rd: "readDrafts disk1 = JArr drafts"
    and idx: "idx < length drafts"
    and br: "body (fst ?X) = object [(js ''ok'', Some (JBool True)), (js ''draft'', Some item)]"
    and upd: "field item (js ''updated'') = Some (JStr (js ''t1''))"
    and e: "\<forall>k\<in>{js ''name'', js ''caption'', js ''hashtags''}.
              field patch k = Some JNull \<longrightarrow> field item k = field (drafts ! idx) k"
    by blast
  from rd have "drafts = [draft1]"
    by (simp add: readDrafts_def disk1_def)
  with idx have cur: "drafts ! idx = draft1"
    by simp
  from p have "field patch (js ''name'') = Some JNull"
    by (auto simp: null_name_patch_def js_def)
  with e cur have "field item (js ''name'') = field draft1 (js ''name'')"
    by simp
  then have "field item (js ''name'') = Some (JStr (js ''n''))"
    by (simp add: draft1_def js_def)
  then show ?thesis
    using st br upd by blast
qed

section \<open>Properties of GET /api/trends\<close>

lemma app_get_api_trends_router:
  "app_get_api_trends w = Some (router_get_trends (upstream w))"
  by (simp add: app_get_api_trends_def)

lemma get_api_trends_disabled:
  "env \<noteq> Some (js ''true'') \<Longrightarrow> get_api_trends env sc = simulated"
  by (simp add: get_api_trends_def)

lemma simulated_response:
  "status simulated = 200 \<and>
   body simulated = object
     [(js ''ok'', Some (JBool True)),
      (js ''provider'', Some (JStr (js ''simulated''))),
      (js ''data'', Some (JArr fallback))]
   \<and> length fallback = 9"
  by (simp add: simulated_def res_json_def fallback_def)

lemma router_get_trends_rejected:
  "router_get_trends (FetchRejects e) =
     res_json 500 (object [(js ''error'', Some (JStr (js ''Failed to fetch trends'')))])"
  by (simp add: router_get_trends_def trends_try_def)

lemma key_distinct_trends [simp]:
  "js ''provider'' \<noteq> js ''trends''" "js ''provider'' \<noteq> js ''error''"
  "js ''trends'' \<noteq> js ''provider''" "js ''error'' \<noteq> js ''provider''"
  by (simp_all add: js_def)

lemma router_get_trends_no_provider:
  "field (body (router_get_trends fr)) (js ''provider'') = None"
proof (cases "trends_try fr")
  case (Inl e)
  then show ?thesis
    by (simp add: router_get_trends_def res_json_def field_object)
next
  case (Inr b)
  then have "\<exists>ts. b = object [(js ''trends'', Some (JArr ts))]"
    unfolding trends_try_def and_then_def
    by (auto split: fetch_result.splits if_splits sum.splits option.splits json.splits)
  with Inr show ?thesis
    by (auto simp: router_get_trends_def res_json_def field_object)
qed

lemma simulated_provider:
  "field (body simulated) (js ''provider'') = Some (JStr (js ''simulated''))"
  by (simp add: simulated_def res_json_def field_object js_def)

lemma router_get_trends_not_simulated: "router_get_trends fr \<noteq> simulated"
proof
  assume "router_get_trends fr = simulated"
  then have "field (body (router_get_trends fr)) (js ''provider'') = field (body simulated) (js ''provider'')"
    by simp
  then show False
    by (simp add: router_get_trends_no_provider simulated_provider)
qed

text \<open>
  Claim C1 describes the handler of server.js (\<open>get_api_trends\<close>): with scraping
  disabled it sends the simulated list with status 200, by \<open>get_api_trends_disabled\<close>
  and \<open>simulated_response\<close>. The application never runs that handler: the router
  of trends.js is mounted at \<^verbatim>\<open>/api\<close> before the route is registered, its route
  \<^verbatim>\<open>/trends\<close> answers every \<^verbatim>\<open>GET /api/trends\<close> (\<open>app_get_api_trends_router\<close>)
  and never with the simulated list (\<open>router_get_trends_not_simulated\<close>). With
  scraping disabled and the request to the third-party service rejected, the
  application answers 500 with \<^verbatim>\<open>{ error: "Failed to fetch trends" }\<close>, where the
  handler of server.js would have sent the simulated list.
\<close>

theorem trends_route_shadowed:
  "app_get_api_trends world_upstream_down =
     Some (res_json 500 (object [(js ''error'', Some (JStr (js ''Failed to fetch trends'')))]))
   \<and> get_api_trends (USE_PUPPETEER world_upstream_down) (scrape world_upstream_down) = simulated"
  by (simp add: app_get_api_trends_router router_get_trends_rejected get_api_trends_disabled
      world_upstream_down_def)

section \<open>The uploads after POST /api/caption\<close>

lemma key_set_simps:
  "OPENAI_API_KEY w \<noteq> None \<Longrightarrow> OPENAI_API_KEY w \<noteq> Some [] \<Longrightarrow>
     post_api_caption w fs req_file req_body =
       (case context_step w fs req_file req_body of
          (fs', Return r) \<Rightarrow> (r, fs')
        | (fs', Throw e) \<Rightarrow> (generation_failed e, fs')
        | (fs', Continue contextText) \<Rightarrow>
            (case generate w contextText of
               Inl e \<Rightarrow> (generation_failed e, fs')
             | Inr r \<Rightarrow> (r, fs')))"
  by (auto simp: post_api_caption_def)

lemma transcode_fails_no_cleanup:
  assumes "OPENAI_API_KEY w \<noteq> None" and "OPENAI_API_KEY w \<noteq> Some []"
    and "ffmpeg w = FfmpegError e partial"
  shows "post_api_caption w fs (Some v) req_body =
           (generation_failed e, if partial then insert (v @ js ''.mp3'') fs else fs)"
  using assms by (simp add: key_set_simps context_step_def)

lemma transcription_fails_no_cleanup:
  assumes "OPENAI_API_KEY w \<noteq> None" and "OPENAI_API_KEY w \<noteq> Some []"
    and "ffmpeg w = FfmpegEnd" and "transcribe w = Inl e"
  shows "post_api_caption w fs (Some v) req_body =
           (generation_failed e, insert (v @ js ''.mp3'') fs)"
  using assms by (simp add: key_set_simps context_step_def)

lemma transcribed_cleanup:
  assumes "OPENAI_API_KEY w \<noteq> None" and "OPENAI_API_KEY w \<noteq> Some []"
    and "ffmpeg w = FfmpegEnd" and "transcribe w = Inr t"
  shows "snd (post_api_caption w fs (Some v) req_body) =
           unlink_quietly w (v @ js ''.mp3'') (unlink_quietly w v (insert (v @ js ''.mp3'') fs))"
  using assms by (simp add: key_set_simps context_step_def Let_def split: sum.splits)

lemma transcribed_cleanup_removes_both:
  assumes "OPENAI_API_KEY w \<noteq> None" and "OPENAI_API_KEY w \<noteq> Some []"
    and "ffmpeg w = FfmpegEnd" and "transcribe w = Inr t"
    and "\<not> unlink_fails w v" and "\<not> unlink_fails w (v @ js ''.mp3'')" and "v \<in> fs"
  shows "snd (post_api_caption w fs (Some v) req_body) = fs - {v, v @ js ''.mp3''}"
  using assms by (auto simp: transcribed_cleanup unlink_quietly_def)

text \<open>
  Claim C5 holds of the requests whose transcoding and transcription succeed: both
  removals are attempted and their errors swallowed (\<open>transcribed_cleanup\<close>,
  \<open>transcribed_cleanup_removes_both\<close>). It does not hold when one of the two fails:
  the exception leaves the \<^verbatim>\<open>try\<close> block before the removals, and the handler of
  the exception removes nothing (\<open>transcode_fails_no_cleanup\<close>,
  \<open>transcription_fails_no_cleanup\<close>). After a failed transcoding the upload is
  still in the directory; after a failed transcription both the upload and the audio
  file are.
\<close>

theorem failed_transcode_leaves_upload:
  "post_api_caption
     (world_ok\<lparr>ffmpeg := FfmpegError (Failure (js ''ffmpeg exited with code 1'')) False\<rparr>)
     {video} (Some video) None =
       (generation_failed (Failure (js ''ffmpeg exited with code 1'')), {video})
   \<and> status (generation_failed (Failure (js ''ffmpeg exited with code 1''))) = 500
   \<and> post_api_caption (world_ok\<lparr>transcribe := Inl (Failure (js ''401 Unauthorized''))\<rparr>)
        {video} (Some video) None =
       (generation_failed (Failure (js ''401 Unauthorized'')), {video @ js ''.mp3'', video})"
proof -
  have k: "OPENAI_API_KEY world_ok \<noteq> None" "OPENAI_API_KEY world_ok \<noteq> Some []"
    by (simp_all add: world_ok_def js_def)
  have 1: "post_api_caption
     (world_ok\<lparr>ffmpeg := FfmpegError (Failure (js ''ffmpeg exited with code 1'')) False\<rparr>)
     {video} (Some video) None =
       (generation_failed (Failure (js ''ffmpeg exited with code 1'')), {video})"
    using k by (simp add: transcode_fails_no_cleanup)
  have 2: "post_api_caption (world_ok\<lparr>transcribe := Inl (Failure (js ''401 Unauthorized''))\<rparr>)
        {video} (Some video) None =
       (generation_failed (Failure (js ''401 Unauthorized'')), {video @ js ''.mp3'', video})"
    using k by (simp add: transcription_fails_no_cleanup world_ok_def)
  from 1 2 show ?thesis by simp
qed

section \<open>The identity of drafts\<close>

lemma uint_digit:
  assumes "0 \<le> n" and "n < 10"
  shows "uint (0x30 + word_of_int n :: 16 word) = 48 + n"
proof -
  have "uint (0x30 + word_of_int n :: 16 word) = (48 + n) mod 2 ^ 16"
    by (simp add: uint_word_ariths uint_word_of_int mod_add_right_eq take_bit_eq_mod)
  also have "\<dots> = 48 + n" using assms by simp
  finally show ?thesis .
qed

lemma undigits_digits: "0 \<le> n \<Longrightarrow> undigits (digits n) = n"
proof (induction n rule: digits.induct)
  case (1 n)
  show ?case
  proof (cases "n < 10")
    case True
    with 1 show ?thesis
      by (subst digits.simps) (simp add: undigits_def uint_digit)
  next
    case False
    then have ih: "undigits (digits (n div 10)) = n div 10"
      using 1 by simp
    have m: "0 \<le> n mod 10" "n mod 10 < 10" by simp_all
    have "undigits (digits n) = 10 * undigits (digits (n div 10)) + (uint (0x30 + word_of_int (n mod 10) :: 16 word) - 48)"
      using False by (subst digits.simps) (simp add: undigits_def)
    also have "\<dots> = 10 * (n div 10) + n mod 10"
      by (simp add: ih uint_digit [OF m])
    also have "\<dots> = n" by simp
    finally show ?thesis .
  qed
qed

lemma draft_id_inj:
  assumes "0 \<le> a" and "0 \<le> b"
  shows "draft_id a = draft_id b \<longleftrightarrow> a = b"
proof
  assume "draft_id a = draft_id b"
  then have "digits a = digits b"
    using assms by (simp add: draft_id_def int_to_string_def)
  then have "undigits (digits a) = undigits (digits b)" by simp
  then show "a = b" using assms by (simp add: undigits_digits)
qed simp

lemma delete_api_drafts_200:
  assumes "delete_api_drafts id' wr d = (r, d')" and "status r = 200"
  shows "\<exists>drafts idx.
           readDrafts d = JArr drafts \<and> findIndex (has_id id') drafts = Inr (Some idx)
           \<and> r = res_json 200 (object [(js ''ok'', Some (JBool True)), (js ''deleted'', Some (drafts ! idx))])
           \<and> d' = d\<lparr>drafts_file := Some (JArr (take idx drafts @ drop (Suc idx) drafts)),
                    written := JArr (take idx drafts @ drop (Suc idx) drafts) # written d\<rparr>"
proof -
  from assms obtain drafts where rd: "readDrafts d = JArr drafts"
    unfolding delete_api_drafts_def by (cases "readDrafts d") auto
  from assms rd obtain idx where fi: "findIndex (has_id id') drafts = Inr (Some idx)"
    unfolding delete_api_drafts_def by (auto split: sum.splits option.splits)
  from assms rd fi have
    "r = res_json 200 (object [(js ''ok'', Some (JBool True)), (js ''deleted'', Some (drafts ! idx))])
     \<and> d' = d\<lparr>drafts_file := Some (JArr (take idx drafts @ drop (Suc idx) drafts)),
              written := JArr (take idx drafts @ drop (Suc idx) drafts) # written d\<rparr>"
    unfolding delete_api_drafts_def writeDrafts_def Let_def
    by (auto split: write_result.splits)
  with rd fi show ?thesis by blast
qed

lemma key_distinct_env [simp]:
  "js ''drafts'' \<noteq> js ''ok''" "js ''ok'' \<noteq> js ''drafts''"
  "js ''deleted'' \<noteq> js ''ok''" "js ''ok'' \<noteq> js ''deleted''"
  "js ''draft'' \<noteq> js ''ok''" "js ''ok'' \<noteq> js ''draft''"
  by (simp_all add: js_def)

lemma listed_ids_written:
  "listed_ids (d\<lparr>drafts_file := Some (JArr xs), written := ws\<rparr>) = map (\<lambda>x. field x (js ''id'')) xs"
  by (simp add: listed_ids_def get_api_drafts_def res_json_def field_object readDrafts_def)

lemma delete_then_list:
  assumes "delete_api_drafts id' wr d = (r, d')" and "status r = 200"
    and "readDrafts d = JArr drafts"
    and "length (filter (\<lambda>x. field x (js ''id'') = Some (JStr id')) drafts) \<le> 1"
  shows "Some (JStr id') \<notin> set (listed_ids d')
       \<and> (\<exists>idx<length drafts. field (drafts ! idx) (js ''id'') = Some (JStr id')
             \<and> field (body r) (js ''deleted'') = Some (drafts ! idx))"
proof -
  let ?P = "\<lambda>x. field x (js ''id'') = Some (JStr id')"
  from delete_api_drafts_200 [OF assms(1,2)] assms(3) obtain idx where
    fi: "findIndex (has_id id') drafts = Inr (Some idx)"
    and r: "r = res_json 200 (object [(js ''ok'', Some (JBool True)), (js ''deleted'', Some (drafts ! idx))])"
    and d': "d' = d\<lparr>drafts_file := Some (JArr (take idx drafts @ drop (Suc idx) drafts)),
                    written := JArr (take idx drafts @ drop (Suc idx) drafts) # written d\<rparr>"
    by auto
  from findIndex_Some [OF fi] have idx: "idx < length drafts" and cur: "?P (drafts ! idx)"
    by (simp_all add: has_id_True)
  have split: "drafts = take idx drafts @ drafts ! idx # drop (Suc idx) drafts"
    using idx by (rule id_take_nth_drop)
  have "length (filter ?P drafts) =
          length (filter ?P (take idx drafts)) + 1 + length (filter ?P (drop (Suc idx) drafts))"
    by (subst split) (simp add: cur)
  with assms(4) have "filter ?P (take idx drafts) = []" and "filter ?P (drop (Suc idx) drafts) = []"
    by simp_all
  then have "\<forall>x\<in>set (take idx drafts @ drop (Suc idx) drafts). \<not> ?P x"
    by (auto simp: filter_empty_conv)
  then have "Some (JStr id') \<notin> set (listed_ids d')"
    unfolding d' listed_ids_written by force
  moreover have "field (body r) (js ''deleted'') = Some (drafts ! idx)"
    by (simp add: r res_json_def field_object)
  ultimately show ?thesis using idx cur by blast
qed

text \<open>
  Claim C3 does not hold: the id is \<^verbatim>\<open>"draft_"\<close> followed by the milliseconds of the
  clock and nothing else, so two ids are equal exactly when the two clock readings are
  (\<open>draft_id_inj\<close>). Two creations in the same millisecond, one after the other, on
  the empty store: both succeed, both records have the id
  \<^verbatim>\<open>draft_1700000000000\<close>, and the store lists two drafts with that id.
\<close>

theorem same_millisecond_same_id:
  "(case post_api_drafts name_body 1700000000000 (js ''t0'') WriteOk disk0 of (r1, d1) \<Rightarrow>
      case post_api_drafts name_body 1700000000000 (js ''t0'') WriteOk d1 of (r2, d2) \<Rightarrow>
        status r1 = 200 \<and> status r2 = 200
        \<and> opt_prop (field (body r1) (js ''draft'')) (js ''id'') = Some (JStr (js ''draft_1700000000000''))
        \<and> opt_prop (field (body r2) (js ''draft'')) (js ''id'') = Some (JStr (js ''draft_1700000000000''))
        \<and> listed_ids d2 =
             [Some (JStr (js ''draft_1700000000000'')), Some (JStr (js ''draft_1700000000000''))])"
  by code_simp

text \<open>
  Claim C8 holds on every store in which at most one draft has the requested id
  (\<open>delete_then_list\<close>), and the deleted record is returned. On a store with two
  drafts of the same id, as two creations in the same millisecond leave it, the
  deletion succeeds, returns a record with that id, and the list that follows still has
  a draft with that id.
\<close>

theorem delete_leaves_same_id:
  "(case post_api_drafts name_body 1700000000000 (js ''t0'') WriteOk disk0 of (r1, d1) \<Rightarrow>
      case post_api_drafts name_body 1700000000000 (js ''t0'') WriteOk d1 of (r2, d2) \<Rightarrow>
        case delete_api_drafts (js ''draft_1700000000000'') WriteOk d2 of (r3, d3) \<Rightarrow>
          status r3 = 200
          \<and> opt_prop (field (body r3) (js ''deleted'')) (js ''id'') = Some (JStr (js ''draft_1700000000000''))
          \<and> listed_ids d3 = [Some (JStr (js ''draft_1700000000000''))])"
  by code_simp

end
